theory Spec2Isabelle
  imports Main
begin

section \<open>JavaScript values\<close>

text \<open>
  The profile client reads response bodies of TypeScript type \<open>any\<close>. They are modelled
  as JSON values extended with \<open>undefined\<close>. An object is the sequence of its members
  in source order; as in \<open>JSON.parse\<close> and in an object literal, a later member with
  the same key overrides an earlier one. Numbers are restricted to integers (the code only
  tests them for truthiness and equality).
\<close>

datatype jsval =
    JUndefined
  | JNull
  | JBool bool
  | JNum int
  | JStr string
  | JArr "jsval list"
  | JObj "(string \<times> jsval) list"

text \<open>Decimal index keys of arrays and strings: \<open>"0"\<close>, \<open>"1"\<close>, ...\<close>

definition digit_char :: "nat \<Rightarrow> char" where
  "digit_char d = ''0123456789'' ! d"

function index_key :: "nat \<Rightarrow> string" where
  "index_key n = (if n < 10 then [digit_char n] else index_key (n div 10) @ [digit_char (n mod 10)])"
  by pat_completeness auto
termination
  by (relation "measure id") auto

declare index_key.simps [simp del]

definition array_props :: "jsval list \<Rightarrow> (string \<times> jsval) list" where
  "array_props xs = zip (map index_key [0..<length xs]) xs"

text \<open>The own enumerable properties of a value: what a spread \<open>...v\<close> copies.\<close>

fun own_props :: "jsval \<Rightarrow> (string \<times> jsval) list" where
  "own_props (JObj members) = members"
| "own_props (JArr xs) = array_props xs"
| "own_props (JStr s) = array_props (map (\<lambda>c. JStr [c]) s)"
| "own_props _ = []"

text \<open>
  The own property \<open>k\<close> of a value, if it has one: in an object the last member with that
  key, in an array or a string the element whose index key is \<open>k\<close>.
\<close>

fun own_property :: "jsval \<Rightarrow> string \<Rightarrow> jsval option" where
  "own_property (JObj members) k = map_of (rev members) k"
| "own_property (JArr xs) k =
     map_option (\<lambda>i. xs ! i) (find (\<lambda>i. index_key i = k) [0..<length xs])"
| "own_property (JStr s) k =
     map_option (\<lambda>i. JStr [s ! i]) (find (\<lambda>i. index_key i = k) [0..<length s])"
| "own_property _ k = None"

text \<open>Whether a value (a response body) has the field \<open>k\<close>.\<close>

definition has_own :: "jsval \<Rightarrow> string \<Rightarrow> bool" where
  "has_own v k = (k \<in> set (map fst (own_props v)))"

fun nullish :: "jsval \<Rightarrow> bool" where
  "nullish JUndefined = True"
| "nullish JNull = True"
| "nullish _ = False"

fun js_length :: "jsval \<Rightarrow> jsval" where
  "js_length (JArr xs) = JNum (int (length xs))"
| "js_length (JStr s) = JNum (int (length s))"
| "js_length _ = JUndefined"

text \<open>
  \<open>lookup v k\<close> is the value of \<open>v.k\<close> (or \<open>v[k]\<close>) for a \<open>v\<close> that is neither
  \<open>null\<close> nor \<open>undefined\<close>. Only own properties and \<open>length\<close> are modelled: none
  of the keys the code reads is defined on a built-in prototype.
\<close>

definition lookup :: "jsval \<Rightarrow> string \<Rightarrow> jsval" where
  "lookup v k =
     (case own_property v k of
        Some x \<Rightarrow> x
      | None \<Rightarrow> (if k = ''length'' then js_length v else JUndefined))"

fun truthy :: "jsval \<Rightarrow> bool" where
  "truthy JUndefined = False"
| "truthy JNull = False"
| "truthy (JBool b) = b"
| "truthy (JNum n) = (n \<noteq> 0)"
| "truthy (JStr s) = (s \<noteq> [])"
| "truthy (JArr xs) = True"
| "truthy (JObj members) = True"

text \<open>\<open>a || b\<close>\<close>

definition js_or :: "jsval \<Rightarrow> jsval \<Rightarrow> jsval" where
  "js_or a b = (if truthy a then a else b)"

text \<open>\<open>typeof v === "string"\<close>\<close>

fun is_string :: "jsval \<Rightarrow> bool" where
  "is_string (JStr s) = True"
| "is_string _ = False"

text \<open>lodash's \<open>_.isEmpty\<close>: true for every value that is not a non-empty string, array or
  object.\<close>

fun isEmpty :: "jsval \<Rightarrow> bool" where
  "isEmpty (JStr s) = (s = [])"
| "isEmpty (JArr xs) = (xs = [])"
| "isEmpty (JObj members) = (members = [])"
| "isEmpty _ = True"

section \<open>Requests, responses and exceptions\<close>

datatype HttpMethods = GET | PATCH | POST

datatype AcceptHeaderValues = ACCEPT_APP_JSON

datatype ContentTypeHeaderValues = CONTENT_APP_JSON | CONTENT_APP_SCIM

record RequestConfig =
  request_data :: jsval
  headers :: jsval
  httpMethod :: HttpMethods
  url :: string

record AxiosResponse =
  status :: int
  data :: jsval
  response_request :: jsval
  response_config :: jsval

record AxiosError =
  axios_stack :: jsval
  axios_code :: jsval
  axios_request :: jsval
  axios_response :: "AxiosResponse option"
  axios_config :: jsval

text \<open>
  Modelled from the spec: the module of \<open>ProfileConstants\<close> is not among the sources.
  Each error constant is identified by its name.
\<close>

datatype ProfileConstants =
    GRAVATAR_IMAGE_FETCH_REQUEST_ERROR
  | PROFILE_INFO_FETCH_REQUEST_INVALID_RESPONSE_CODE_ERROR
  | PROFILE_INFO_FETCH_REQUEST_ERROR
  | PROFILE_INFO_UPDATE_REQUEST_INVALID_RESPONSE_CODE_ERROR
  | PROFILE_INFO_UPDATE_REQUEST_ERROR
  | SCHEMA_FETCH_REQUEST_INVALID_RESPONSE_CODE_ERROR
  | SCHEMA_FETCH_REQUEST_ERROR
  | ACCOUNT_SWITCH_REQUEST_ERROR

text \<open>
  Modelled from the spec: the class \<open>IdentityAppsApiException\<close> is not among the
  sources. Its shape is the one the spec gives for the exception surfaced to callers,
  \<open>{ errorCode, stackTrace?, httpStatusOrCode?, request?, response?, requestConfig? }\<close>,
  filled from the six constructor arguments in that order, and a handler that catches it
  reads them back as \<open>stack\<close>, \<open>code\<close>, \<open>request\<close>, \<open>response\<close> and \<open>config\<close>.
\<close>

record IdentityAppsApiException =
  errorCode :: ProfileConstants
  stackTrace :: jsval
  httpStatusOrCode :: jsval
  exception_request :: jsval
  exception_response :: "AxiosResponse option"
  requestConfig :: jsval

definition new_IdentityAppsApiException ::
  "ProfileConstants \<Rightarrow> jsval \<Rightarrow> jsval \<Rightarrow> jsval \<Rightarrow> AxiosResponse option \<Rightarrow> jsval
     \<Rightarrow> IdentityAppsApiException" where
  "new_IdentityAppsApiException message stk cd req res cfg =
     \<lparr>errorCode = message, stackTrace = stk, httpStatusOrCode = cd,
      exception_request = req, exception_response = res, requestConfig = cfg\<rparr>"

text \<open>
  What a promise can be rejected with, or a handler can throw: the HTTP layer's error, the
  client's own exception, or the \<open>TypeError\<close> of a property read on \<open>null\<close> or
  \<open>undefined\<close> (it carries its engine-defined stack text).
\<close>

datatype thrown =
    Rejection AxiosError
  | ApiException IdentityAppsApiException
  | TypeError string

text \<open>The five properties every \<open>catch\<close> handler reads from the error it receives.\<close>

fun error_stack :: "thrown \<Rightarrow> jsval" where
  "error_stack (Rejection e) = axios_stack e"
| "error_stack (ApiException x) = stackTrace x"
| "error_stack (TypeError s) = JStr s"

fun error_code :: "thrown \<Rightarrow> jsval" where
  "error_code (Rejection e) = axios_code e"
| "error_code (ApiException x) = httpStatusOrCode x"
| "error_code (TypeError s) = JUndefined"

fun error_request :: "thrown \<Rightarrow> jsval" where
  "error_request (Rejection e) = axios_request e"
| "error_request (ApiException x) = exception_request x"
| "error_request (TypeError s) = JUndefined"

fun error_response :: "thrown \<Rightarrow> AxiosResponse option" where
  "error_response (Rejection e) = axios_response e"
| "error_response (ApiException x) = exception_response x"
| "error_response (TypeError s) = None"

fun error_config :: "thrown \<Rightarrow> jsval" where
  "error_config (Rejection e) = axios_config e"
| "error_config (ApiException x) = requestConfig x"
| "error_config (TypeError s) = JUndefined"

section \<open>Promise chains with a log of external calls\<close>

record CustomGrantConfig =
  attachToken :: bool
  grant_data :: jsval
  returnResponse :: bool
  returnsSession :: bool
  signInRequired :: bool

datatype event =
    HttpClientRequest RequestConfig
  | AxiosRequest RequestConfig
  | CustomGrantRequest CustomGrantConfig
  | SCIMDisabledCallback

text \<open>
  A run of asynchronous code: the external calls it made, in order, and how it settled
  (\<open>Inl\<close>: rejected or thrown, \<open>Inr\<close>: resolved or returned).
\<close>

type_synonym 'a run = "event list \<times> (thrown + 'a)"

definition resolve :: "'a \<Rightarrow> 'a run" where
  "resolve x = ([], Inr x)"

definition throw :: "thrown \<Rightarrow> 'a run" where
  "throw t = ([], Inl t)"

definition emit :: "event \<Rightarrow> unit run" where
  "emit e = ([e], Inr ())"

text \<open>\<open>p.then(f)\<close>, and sequencing inside an \<open>async\<close> function.\<close>

definition and_then :: "'a run \<Rightarrow> ('a \<Rightarrow> 'b run) \<Rightarrow> 'b run" where
  "and_then p f =
     (case p of
        (es, Inl t) \<Rightarrow> (es, Inl t)
      | (es, Inr x) \<Rightarrow> (case f x of (es', r) \<Rightarrow> (es @ es', r)))"

text \<open>\<open>p.catch(h)\<close>, and \<open>try { p } catch (error) { h }\<close>.\<close>

definition catch_with :: "'a run \<Rightarrow> (thrown \<Rightarrow> 'a run) \<Rightarrow> 'a run" where
  "catch_with p h =
     (case p of
        (es, Inl t) \<Rightarrow> (case h t of (es', r) \<Rightarrow> (es @ es', r))
      | (es, Inr x) \<Rightarrow> (es, Inr x))"

text \<open>\<open>v.k\<close> as the code evaluates it: a \<open>TypeError\<close> on \<open>null\<close> and \<open>undefined\<close>.\<close>

definition get_property :: "jsval \<Rightarrow> string \<Rightarrow> jsval run" where
  "get_property v k =
     (if nullish v then throw (TypeError ''TypeError: Cannot read properties of null or undefined'')
      else resolve (lookup v k))"

text \<open>
  The external collaborators of the profile client, none of which is among the sources:
  the authenticated HTTP client, \<open>axios.request\<close>, the custom grant of the authentication
  SDK (each either rejects with an error or resolves), the Gravatar URL builder, the header
  builder (an argument that is \<open>null\<close> or left out is \<open>None\<close>), the runtime configuration
  and the endpoint table. The builders are taken to return for every argument.
\<close>

record Env =
  httpClient :: "RequestConfig \<Rightarrow> AxiosError + AxiosResponse"
  axios :: "RequestConfig \<Rightarrow> AxiosError + AxiosResponse"
  customGrant :: "CustomGrantConfig \<Rightarrow> AxiosError + jsval"
  buildGravatarURL :: "jsval \<Rightarrow> jsval \<Rightarrow> jsval \<Rightarrow> jsval \<Rightarrow> string"
  HTTPRequestHeaders ::
    "string \<Rightarrow> AcceptHeaderValues option \<Rightarrow> ContentTypeHeaderValues option \<Rightarrow> jsval"
  clientHost :: string
  serverHost :: string
  endpoint_me :: "string \<Rightarrow> string"
  endpoint_profileSchemas :: "string \<Rightarrow> string"

definition call_httpClient :: "Env \<Rightarrow> RequestConfig \<Rightarrow> AxiosResponse run" where
  "call_httpClient env rc =
     ([HttpClientRequest rc],
      case httpClient env rc of Inl e \<Rightarrow> Inl (Rejection e) | Inr r \<Rightarrow> Inr r)"

definition call_axios :: "Env \<Rightarrow> RequestConfig \<Rightarrow> AxiosResponse run" where
  "call_axios env rc =
     ([AxiosRequest rc],
      case axios env rc of Inl e \<Rightarrow> Inl (Rejection e) | Inr r \<Rightarrow> Inr r)"

definition call_customGrant :: "Env \<Rightarrow> CustomGrantConfig \<Rightarrow> jsval run" where
  "call_customGrant env g =
     ([CustomGrantRequest g],
      case customGrant env g of Inl e \<Rightarrow> Inl (Rejection e) | Inr r \<Rightarrow> Inr r)"

section \<open>The profile service client\<close>

subsection \<open>getGravatarImage\<close>

definition getGravatarImage_catch :: "thrown \<Rightarrow> string run" where
  "getGravatarImage_catch error =
     throw (ApiException (new_IdentityAppsApiException GRAVATAR_IMAGE_FETCH_REQUEST_ERROR
       (error_stack error) (error_code error) (error_request error) (error_response error)
       (error_config error)))"

text \<open>The parameter \<open>fallback\<close> has the default value \<open>"404"\<close>, used when the argument is
  \<open>undefined\<close>.\<close>

definition getGravatarImage_request :: "Env \<Rightarrow> jsval \<Rightarrow> jsval \<Rightarrow> jsval \<Rightarrow> jsval \<Rightarrow> RequestConfig" where
  "getGravatarImage_request env email sz defaultImg fb =
     \<lparr>request_data = JUndefined, headers = JUndefined, httpMethod = GET,
      url = buildGravatarURL env email sz defaultImg (if fb = JUndefined then JStr ''404'' else fb)\<rparr>"

definition getGravatarImage :: "Env \<Rightarrow> jsval \<Rightarrow> jsval \<Rightarrow> jsval \<Rightarrow> jsval \<Rightarrow> string run" where
  "getGravatarImage env email sz defaultImg fb =
     catch_with
       (and_then (call_axios env (getGravatarImage_request env email sz defaultImg fb))
          (\<lambda>_. resolve (url (getGravatarImage_request env email sz defaultImg fb))))
       getGravatarImage_catch"

subsection \<open>getProfileInfo\<close>

record GravatarConfig =
  gravatar_size :: jsval
  defaultImage :: jsval
  fallback :: jsval

text \<open>\<open>gravatarConfig?.field\<close>\<close>

definition optional_chain :: "GravatarConfig option \<Rightarrow> (GravatarConfig \<Rightarrow> jsval) \<Rightarrow> jsval" where
  "optional_chain gravatarConfig field =
     (case gravatarConfig of None \<Rightarrow> JUndefined | Some g \<Rightarrow> field g)"

definition orgKey :: string where
  "orgKey = ''urn:ietf:params:scim:schemas:extension:enterprise:2.0:User''"

text \<open>The first argument of the Gravatar call:
  \<open>typeof emails[0] === "string" ? emails[0] : emails[0].value\<close>.\<close>

definition gravatar_email :: "AxiosResponse \<Rightarrow> jsval run" where
  "gravatar_email response =
     and_then (get_property (data response) ''emails'') (\<lambda>emails.
     and_then (get_property emails ''0'') (\<lambda>first.
       if is_string first then resolve first else get_property first ''value''))"

text \<open>The body of the \<open>try\<close> block: the attempt to obtain a Gravatar image.\<close>

definition gravatar_attempt :: "Env \<Rightarrow> GravatarConfig option \<Rightarrow> AxiosResponse \<Rightarrow> string run" where
  "gravatar_attempt env gravatarConfig response =
     and_then (gravatar_email response) (\<lambda>email.
       getGravatarImage env email
         (optional_chain gravatarConfig gravatar_size)
         (optional_chain gravatarConfig defaultImage)
         (optional_chain gravatarConfig fallback))"

text \<open>The object literal \<open>profileResponse\<close>: nine members, then the spread of the body.\<close>

definition profileResponse :: "AxiosResponse \<Rightarrow> jsval \<Rightarrow> jsval run" where
  "profileResponse response profileImage =
     and_then (get_property (data response) ''emails'') (\<lambda>emails.
     and_then (get_property (data response) ''name'') (\<lambda>name.
     and_then (get_property (data response) orgKey) (\<lambda>enterprise.
     and_then (if truthy enterprise then get_property enterprise ''organization''
               else resolve (JStr [])) (\<lambda>organisation.
     and_then (get_property (data response) ''phoneNumbers'') (\<lambda>phoneNumbers.
     and_then (get_property (data response) ''profileUrl'') (\<lambda>profileUrl.
     and_then (get_property (data response) ''roles'') (\<lambda>roles.
     and_then (get_property (data response) ''userImage'') (\<lambda>userImage.
     and_then (get_property (data response) ''userName'') (\<lambda>userName.
       resolve (JObj (
         [(''emails'', js_or emails (JStr [])),
          (''name'', js_or name (JObj [(''familyName'', JStr []), (''givenName'', JStr [])])),
          (''organisation'', organisation),
          (''phoneNumbers'', js_or phoneNumbers (JArr [])),
          (''profileUrl'', js_or profileUrl (JStr [])),
          (''responseStatus'', if status response \<noteq> 0 then JNum (status response) else JNull),
          (''roles'', js_or roles (JArr [])),
          (''userImage'', js_or userImage profileImage),
          (''userName'', js_or userName (JStr []))]
         @ own_props (data response))))))))))))"

definition getProfileInfo_then :: "Env \<Rightarrow> GravatarConfig option \<Rightarrow> AxiosResponse \<Rightarrow> jsval run" where
  "getProfileInfo_then env gravatarConfig response =
     (if status response \<noteq> 200 then
        throw (ApiException (new_IdentityAppsApiException
          PROFILE_INFO_FETCH_REQUEST_INVALID_RESPONSE_CODE_ERROR
          JNull (JNum (status response)) (response_request response) (Some response)
          (response_config response)))
      else
        and_then (get_property (data response) ''userImage'') (\<lambda>userImage.
        and_then (if isEmpty userImage
                  then and_then (get_property (data response) ''profileUrl'')
                         (\<lambda>profileUrl. resolve (\<not> truthy profileUrl))
                  else resolve False) (\<lambda>noImage.
        and_then (if noImage
                  then catch_with (gravatar_attempt env gravatarConfig response)
                         (\<lambda>error. resolve [])
                  else resolve []) (\<lambda>gravatar.
        and_then (get_property (data response) ''profileUrl'') (\<lambda>profileUrl.
          profileResponse response
            (if truthy profileUrl then profileUrl else JStr gravatar))))))"

text \<open>The test of the \<open>catch\<close> handler:
  \<open>error.response && error.response.data && error.response.data.status
    && error.response.data.status === "500"\<close>.\<close>

definition scim_disabled :: "thrown \<Rightarrow> bool" where
  "scim_disabled error =
     (case error_response error of
        None \<Rightarrow> False
      | Some r \<Rightarrow> truthy (data r) \<and> truthy (lookup (data r) ''status'')
                  \<and> lookup (data r) ''status'' = JStr ''500'')"

text \<open>The caller's callback \<open>onSCIMDisabled\<close> is recorded as an event each time it is
  invoked, and is taken to return.\<close>

definition getProfileInfo_catch :: "thrown \<Rightarrow> jsval run" where
  "getProfileInfo_catch error =
     and_then (if scim_disabled error then emit SCIMDisabledCallback else resolve ()) (\<lambda>_.
       throw (ApiException (new_IdentityAppsApiException PROFILE_INFO_FETCH_REQUEST_ERROR
         (error_stack error) (error_code error) (error_request error) (error_response error)
         (error_config error))))"

definition getProfileInfo_request :: "Env \<Rightarrow> RequestConfig" where
  "getProfileInfo_request env =
     \<lparr>request_data = JUndefined,
      headers = HTTPRequestHeaders env (clientHost env) (Some ACCEPT_APP_JSON) (Some CONTENT_APP_SCIM),
      httpMethod = GET,
      url = endpoint_me env (serverHost env)\<rparr>"

definition getProfileInfo :: "Env \<Rightarrow> GravatarConfig option \<Rightarrow> jsval run" where
  "getProfileInfo env gravatarConfig =
     catch_with
       (and_then (call_httpClient env (getProfileInfo_request env))
          (getProfileInfo_then env gravatarConfig))
       getProfileInfo_catch"

subsection \<open>updateProfileInfo\<close>

definition updateProfileInfo_then :: "AxiosResponse \<Rightarrow> jsval run" where
  "updateProfileInfo_then response =
     (if status response \<noteq> 200 then
        throw (ApiException (new_IdentityAppsApiException
          PROFILE_INFO_UPDATE_REQUEST_INVALID_RESPONSE_CODE_ERROR
          JNull (JNum (status response)) (response_request response) (Some response)
          (response_config response)))
      else resolve (data response))"

definition updateProfileInfo_catch :: "thrown \<Rightarrow> jsval run" where
  "updateProfileInfo_catch error =
     throw (ApiException (new_IdentityAppsApiException PROFILE_INFO_UPDATE_REQUEST_ERROR
       (error_stack error) (error_code error) (error_request error) (error_response error)
       (error_config error)))"

definition updateProfileInfo_request :: "Env \<Rightarrow> jsval \<Rightarrow> RequestConfig" where
  "updateProfileInfo_request env info =
     \<lparr>request_data = info,
      headers = HTTPRequestHeaders env (clientHost env) None None,
      httpMethod = PATCH,
      url = endpoint_me env (serverHost env)\<rparr>"

definition updateProfileInfo :: "Env \<Rightarrow> jsval \<Rightarrow> jsval run" where
  "updateProfileInfo env info =
     catch_with
       (and_then (call_httpClient env (updateProfileInfo_request env info)) updateProfileInfo_then)
       updateProfileInfo_catch"

subsection \<open>getProfileSchemas\<close>

definition getProfileSchemas_then :: "AxiosResponse \<Rightarrow> jsval run" where
  "getProfileSchemas_then response =
     (if status response \<noteq> 200 then
        throw (ApiException (new_IdentityAppsApiException
          SCHEMA_FETCH_REQUEST_INVALID_RESPONSE_CODE_ERROR
          JNull (JNum (status response)) (response_request response) (Some response)
          (response_config response)))
      else
        and_then (get_property (data response) ''0'') (\<lambda>first.
          get_property first ''attributes''))"

definition getProfileSchemas_catch :: "thrown \<Rightarrow> jsval run" where
  "getProfileSchemas_catch error =
     throw (ApiException (new_IdentityAppsApiException SCHEMA_FETCH_REQUEST_ERROR
       (error_stack error) (error_code error) (error_request error) (error_response error)
       (error_config error)))"

definition getProfileSchemas_request :: "Env \<Rightarrow> RequestConfig" where
  "getProfileSchemas_request env =
     \<lparr>request_data = JUndefined,
      headers = HTTPRequestHeaders env (clientHost env) None (Some CONTENT_APP_JSON),
      httpMethod = GET,
      url = endpoint_profileSchemas env (serverHost env)\<rparr>"

definition getProfileSchemas :: "Env \<Rightarrow> jsval run" where
  "getProfileSchemas env =
     catch_with
       (and_then (call_httpClient env (getProfileSchemas_request env)) getProfileSchemas_then)
       getProfileSchemas_catch"

subsection \<open>switchAccount\<close>

text \<open>The fields of \<open>LinkedAccountInterface\<close> that the code reads.\<close>

record LinkedAccountInterface =
  tenantDomain :: string
  username :: string
  userStoreDomain :: string

definition switchAccount_grant :: "LinkedAccountInterface \<Rightarrow> CustomGrantConfig" where
  "switchAccount_grant account =
     \<lparr>attachToken = False,
      grant_data = JObj
        [(''clientId'', JStr ''{{clientId}}''),
         (''grantType'', JStr ''account_switch''),
         (''scope'', JStr ''{{scope}}''),
         (''tenant-domain'', JStr (tenantDomain account)),
         (''token'', JStr ''{{token}}''),
         (''username'', JStr (username account)),
         (''userstore-domain'', JStr (userStoreDomain account))],
      returnResponse = True,
      returnsSession = True,
      signInRequired = True\<rparr>"

text \<open>\<open>response?.data\<close>\<close>

definition switchAccount_then :: "jsval \<Rightarrow> jsval run" where
  "switchAccount_then response =
     resolve (if nullish response then JUndefined else lookup response ''data'')"

definition switchAccount_catch :: "thrown \<Rightarrow> jsval run" where
  "switchAccount_catch error =
     throw (ApiException (new_IdentityAppsApiException ACCOUNT_SWITCH_REQUEST_ERROR
       (error_stack error) (error_code error) (error_request error) (error_response error)
       (error_config error)))"

definition switchAccount :: "Env \<Rightarrow> LinkedAccountInterface \<Rightarrow> jsval run" where
  "switchAccount env account =
     catch_with
       (and_then (call_customGrant env (switchAccount_grant account)) switchAccount_then)
       switchAccount_catch"

section \<open>The email template list page\<close>

subsection \<open>Array.prototype.slice\<close>

text \<open>
  The copying loop of \<open>slice\<close>: from index \<open>k\<close> up to \<open>final\<close>, every index the array
  has is appended to the result.
\<close>

function slice_loop :: "'a list \<Rightarrow> nat \<Rightarrow> nat \<Rightarrow> 'a list \<Rightarrow> 'a list" where
  "slice_loop arr k final acc =
     (if k < final
      then slice_loop arr (k + 1) final (if k < length arr then acc @ [arr ! k] else acc)
      else acc)"
  by pat_completeness auto
termination
  by (relation "measure (\<lambda>(arr, k, final, acc). final - k)") auto

declare slice_loop.simps [simp del]

text \<open>
  \<open>arr.slice(start, fin)\<close> for integer arguments: a negative argument counts from the end
  of the array, and both are clamped to the array.
\<close>

definition slice :: "'a list \<Rightarrow> int \<Rightarrow> int \<Rightarrow> 'a list" where
  "slice arr start fin =
     (let len = int (length arr);
          k = (if start < 0 then max (len + start) 0 else min start len);
          final = (if fin < 0 then max (len + fin) 0 else min fin len)
      in slice_loop arr (nat k) (nat final) [])"

subsection \<open>The component\<close>

text \<open>\<open>s.split(c)\<close> for a one-character separator.\<close>

fun split :: "char \<Rightarrow> string \<Rightarrow> string list" where
  "split c [] = [[]]"
| "split c (x # xs) =
     (if x = c then [] # split c xs
      else (case split c xs of
              [] \<Rightarrow> [[x]]
            | part # parts \<Rightarrow> (x # part) # parts))"

text \<open>
  Modelled from the spec: the type \<open>EmailTemplateDetails\<close> is not among the sources. It
  holds a template-type identifier, a display name and the ordered list of the type's
  templates (\<open>None\<close> when the body carries no array there).
\<close>

record 'a EmailTemplateDetails =
  details_id :: string
  displayName :: string
  templates :: "'a list option"

text \<open>
  The component's state: its six \<open>useState\<close> cells, and around them the location it was
  opened at, the calls of \<open>getEmailTemplate\<close> issued so far, and the dependency values
  with which the fetching effect ran last (\<open>None\<close> before the first render).
\<close>

record 'a EmailTemplates =
  listItemLimit :: int
  listOffset :: int
  templateTypeId :: string
  emailTemplateTypeDetails :: "'a EmailTemplateDetails option"
  emailTemplates :: "'a list"
  paginatedemailTemplates :: "'a list"
  pathname :: string
  getEmailTemplate_calls :: "string list"
  fetch_effect_deps :: "(bool \<times> nat) option"

definition initial :: "string \<Rightarrow> 'a EmailTemplates" where
  "initial path =
     \<lparr>listItemLimit = 0, listOffset = 0, templateTypeId = [],
      emailTemplateTypeDetails = None, emailTemplates = [], paginatedemailTemplates = [],
      pathname = path, getEmailTemplate_calls = [], fetch_effect_deps = None\<rparr>"

text \<open>
  A handler runs in the closure of the render that created it: it reads the state
  \<open>rendered\<close> of that render, and its setters update the state \<open>next\<close> of the following one.
\<close>

definition setEmailTemplateTypePage ::
  "'a EmailTemplates \<Rightarrow> int \<Rightarrow> int \<Rightarrow> 'a EmailTemplates \<Rightarrow> 'a EmailTemplates" where
  "setEmailTemplateTypePage rendered offsetValue itemLimit next =
     next\<lparr>paginatedemailTemplates :=
       slice (emailTemplates rendered) offsetValue (itemLimit + offsetValue)\<rparr>"

definition handlePaginationChange :: "'a EmailTemplates \<Rightarrow> int \<Rightarrow> 'a EmailTemplates" where
  "handlePaginationChange rendered activePage =
     (let offsetValue = (activePage - 1) * listItemLimit rendered
      in setEmailTemplateTypePage rendered offsetValue (listItemLimit rendered)
           (rendered\<lparr>listOffset := offsetValue\<rparr>))"

definition handleItemsPerPageDropdownChange :: "'a EmailTemplates \<Rightarrow> int \<Rightarrow> 'a EmailTemplates" where
  "handleItemsPerPageDropdownChange rendered v =
     setEmailTemplateTypePage rendered (listOffset rendered) v
       (rendered\<lparr>listItemLimit := v\<rparr>)"

text \<open>The dependency array of the fetching effect:
  \<open>[emailTemplateTypeDetails !== undefined, emailTemplates.length]\<close>.\<close>

definition fetch_deps :: "'a EmailTemplates \<Rightarrow> bool \<times> nat" where
  "fetch_deps st = (emailTemplateTypeDetails st \<noteq> None, length (emailTemplates st))"

text \<open>
  A render after a state change: the fetching effect runs again only when one of its
  dependencies differs from the last run. Running it derives the template-type id from the
  last segment of the path and calls \<open>getEmailTemplate\<close>.
\<close>

definition render :: "'a EmailTemplates \<Rightarrow> 'a EmailTemplates" where
  "render st =
     (if fetch_effect_deps st = Some (fetch_deps st) then st
      else (let path = split CHR ''/'' (pathname st);
                typeId = path ! (length path - 1)
            in st\<lparr>templateTypeId := typeId,
                  getEmailTemplate_calls := getEmailTemplate_calls st @ [typeId],
                  fetch_effect_deps := Some (fetch_deps st)\<rparr>))"

text \<open>Mounting: the first render, whose effects set the page size to the default (a constant
  of \<open>UserConstants\<close>, not among the sources) and fetch the templates.\<close>

definition mount :: "int \<Rightarrow> string \<Rightarrow> 'a EmailTemplates" where
  "mount default_limit path = (render (initial path))\<lparr>listItemLimit := default_limit\<rparr>"

subsection \<open>The slice of the specification\<close>

text \<open>
  The specification writes the visible page as \<open>templates[offset : offset + limit]\<close>. In
  this notation an index below zero counts from the end, an index beyond either end is
  moved to that end, and the slice holds the elements from the lower index up to, not
  including, the upper one.
\<close>

definition slice_index :: "nat \<Rightarrow> int \<Rightarrow> nat" where
  "slice_index n i = (if i < 0 then nat (int n + i) else min (nat i) n)"

definition slice_notation :: "'a list \<Rightarrow> int \<Rightarrow> int \<Rightarrow> 'a list" where
  "slice_notation xs lo hi =
     take (slice_index (length xs) hi - slice_index (length xs) lo)
       (drop (slice_index (length xs) lo) xs)"

section \<open>The application feature configuration\<close>

text \<open>
  The member \<open>editApplication\<close> of \<open>applicationConfig\<close>. The types of tab names, of React
  elements and of applications are parameters; \<open>null\<close> is \<open>None\<close>.
\<close>

record ('tab, 'element, 'app) EditApplication =
  extendTabs :: bool
  getActions :: "string \<Rightarrow> string \<Rightarrow> string \<Rightarrow> 'element option"
  getOveriddenTab :: "string \<Rightarrow> 'tab \<Rightarrow> 'element \<Rightarrow> string \<Rightarrow> string \<Rightarrow> string \<Rightarrow> 'element"
  getOverriddenDescription :: "string \<Rightarrow> string \<Rightarrow> string \<Rightarrow> 'element option"
  getOverriddenImage :: "string \<Rightarrow> string \<Rightarrow> 'element option"
  getStrongAuthenticationFlowTabIndex :: "string \<Rightarrow> string \<Rightarrow> string \<Rightarrow> string \<Rightarrow> int"
  getTabPanelReadOnlyStatus :: "string \<Rightarrow> 'app \<Rightarrow> bool"
  isTabEnabledForApp :: "string \<Rightarrow> 'tab \<Rightarrow> string \<Rightarrow> bool"
  renderHelpPanelItems :: "unit \<Rightarrow> 'element option"
  showApplicationShare :: bool
  showDangerZone :: "'app \<Rightarrow> bool"
  showDeleteButton :: "'app \<Rightarrow> bool"
  showProvisioningSettings :: bool

definition editApplication :: "('tab, 'element, 'app) EditApplication" where
  "editApplication =
     \<lparr>extendTabs = False,
      getActions = (\<lambda>clientId tenant testId. None),
      getOveriddenTab =
        (\<lambda>clientId tabName defaultComponent appName appId tenantDomain. defaultComponent),
      getOverriddenDescription = (\<lambda>clientId templateName tenantDomain. None),
      getOverriddenImage = (\<lambda>clientId tenantDomain. None),
      getStrongAuthenticationFlowTabIndex =
        (\<lambda>clientId tenantDomain templateId customApplicationTemplateId.
           if templateId = customApplicationTemplateId then 3 else 4),
      getTabPanelReadOnlyStatus = (\<lambda>tabPanelName applicationName. False),
      isTabEnabledForApp = (\<lambda>clientId tabType tenantDomain. True),
      renderHelpPanelItems = (\<lambda>_. None),
      showApplicationShare = True,
      showDangerZone = (\<lambda>application. True),
      showDeleteButton = (\<lambda>application. True),
      showProvisioningSettings = True\<rparr>"

section \<open>Notions of the specification\<close>

text \<open>
  The uniform exception of the specification: a fixed error code constant together with the
  stack, code, request, response and request config of the original error.
\<close>

definition uniform_exception :: "ProfileConstants \<Rightarrow> thrown \<Rightarrow> thrown" where
  "uniform_exception c original =
     ApiException
       \<lparr>errorCode = c, stackTrace = error_stack original,
        httpStatusOrCode = error_code original, exception_request = error_request original,
        exception_response = error_response original, requestConfig = error_config original\<rparr>"

text \<open>
  A failed call whose error payload reports the status 500: the body of the response that
  the error carries has the member \<open>status\<close> with the value \<open>"500"\<close>. (The body of a SCIM
  error is a JSON object that repeats the HTTP status as a string.)
\<close>

definition reports_500 :: "thrown + jsval \<Rightarrow> bool" where
  "reports_500 outcome =
     (case outcome of
        Inr _ \<Rightarrow> False
      | Inl t \<Rightarrow>
          (case error_response t of
             None \<Rightarrow> False
           | Some r \<Rightarrow> lookup (data r) ''status'' = JStr ''500''))"

section \<open>Example inputs\<close>

text \<open>A page showing a template type with 25 templates, ten to a page.\<close>

definition example_page :: "nat EmailTemplates" where
  "example_page =
     render ((initial ''/email-templates/abc'')
       \<lparr>listItemLimit := 10,
        emailTemplateTypeDetails :=
          Some \<lparr>details_id = ''abc'', displayName = ''Account confirmation'',
                templates = Some [0..<25]\<rparr>,
        emailTemplates := [0..<25]\<rparr>)"

text \<open>An environment in which the HTTP client, \<open>axios.request\<close> and the custom grant settle
  in a given way whatever the request.\<close>

definition example_env ::
  "AxiosError + AxiosResponse \<Rightarrow> AxiosError + AxiosResponse \<Rightarrow> AxiosError + jsval \<Rightarrow> Env" where
  "example_env http_outcome axios_outcome grant_outcome =
     \<lparr>httpClient = (\<lambda>rc. http_outcome),
      axios = (\<lambda>rc. axios_outcome),
      customGrant = (\<lambda>g. grant_outcome),
      buildGravatarURL = (\<lambda>email sz defaultImg fb. ''https://www.gravatar.com/avatar/0c83f57c'' ),
      HTTPRequestHeaders = (\<lambda>host accept contentType. JObj []),
      clientHost = ''https://localhost:9001'',
      serverHost = ''https://localhost:9443'',
      endpoint_me = (\<lambda>host. host @ ''/scim2/Me''),
      endpoint_profileSchemas = (\<lambda>host. host @ ''/scim2/Schemas'')\<rparr>"

definition example_response :: "int \<Rightarrow> jsval \<Rightarrow> AxiosResponse" where
  "example_response st body =
     \<lparr>status = st, data = body, response_request = JObj [], response_config = JObj []\<rparr>"

definition network_error :: AxiosError where
  "network_error =
     \<lparr>axios_stack = JStr ''Error: Network Error'', axios_code = JStr ''ERR_NETWORK'',
      axios_request = JObj [], axios_response = None, axios_config = JObj []\<rparr>"

text \<open>The error of a request that the server answered with status 500 and a SCIM error
  body.\<close>

definition server_error :: AxiosError where
  "server_error =
     \<lparr>axios_stack = JStr ''Error: Request failed with status code 500'',
      axios_code = JStr ''ERR_BAD_RESPONSE'',
      axios_request = JObj [],
      axios_response = Some (example_response 500
        (JObj [(''schemas'', JArr [JStr ''urn:ietf:params:scim:api:messages:2.0:Error'']),
               (''status'', JStr ''500'')])),
      axios_config = JObj []\<rparr>"

text \<open>The server answers every request with status 204 and no body.\<close>

definition no_content_env :: Env where
  "no_content_env =
     example_env (Inr (example_response 204 JNull)) (Inr (example_response 204 JNull))
       (Inl network_error)"

text \<open>No request reaches a server.\<close>

definition offline_env :: Env where
  "offline_env = example_env (Inl network_error) (Inl network_error) (Inl network_error)"

text \<open>The server answers every request with status 200 and the given body.\<close>

definition ok_env :: "jsval \<Rightarrow> Env" where
  "ok_env body =
     example_env (Inr (example_response 200 body)) (Inr (example_response 200 JNull))
       (Inr (JObj [(''data'', JObj [(''access_token'', JStr ''3f2a'')])]))"

definition example_account :: LinkedAccountInterface where
  "example_account =
     \<lparr>tenantDomain = ''carbon.super'', username = ''alice'', userStoreDomain = ''PRIMARY''\<rparr>"

text \<open>The server answers the profile request with status 500 and a SCIM error body.\<close>

definition server_error_env :: Env where
  "server_error_env = example_env (Inl server_error) (Inl network_error) (Inl network_error)"

text \<open>The server answers with status 200 and the given body, and Gravatar cannot be reached.\<close>

definition gravatar_down_env :: "jsval \<Rightarrow> Env" where
  "gravatar_down_env body =
     example_env (Inr (example_response 200 body)) (Inl network_error) (Inl network_error)"

text \<open>A profile without an image.\<close>

definition alice_body :: jsval where
  "alice_body = JObj [(''emails'', JArr [JStr ''alice@example.com'']), (''userName'', JStr ''alice'')]"



section \<open>Properties of values and runs\<close>

lemma index_key_0: "index_key 0 = ''0''"
  by (subst index_key.simps) (simp add: digit_char_def)

lemma own_property_JArr_0:
  "own_property (JArr xs) ''0'' = (case xs of [] \<Rightarrow> None | x # _ \<Rightarrow> Some x)"
  by (cases xs) (simp_all add: upt_conv_Cons index_key_0 del: upt_Suc)

lemma lookup_JArr_0:
  "lookup (JArr xs) ''0'' = (case xs of [] \<Rightarrow> JUndefined | x # _ \<Rightarrow> x)"
  unfolding lookup_def own_property_JArr_0 by (cases xs) simp_all

lemma lookup_JObj:
  "lookup (JObj members) k = (case map_of (rev members) k of None \<Rightarrow> JUndefined | Some x \<Rightarrow> x)"
  by (simp add: lookup_def split: option.splits)

lemma find_index_key_None:
  "k \<notin> set (map index_key [0..<n]) \<Longrightarrow> find (\<lambda>i. index_key i = k) [0..<n] = None"
  by (auto simp: find_None_iff)

lemma own_property_absent: "\<not> has_own v k \<Longrightarrow> own_property v k = None"
proof (cases v)
  case (JObj members)
  assume "\<not> has_own v k"
  then have "k \<notin> fst ` set (rev members)"
    using JObj by (simp add: has_own_def)
  then show ?thesis
    using JObj by (simp add: map_of_eq_None_iff)
next
  case (JArr xs)
  assume "\<not> has_own v k"
  then have "k \<notin> set (map index_key [0..<length xs])"
    using JArr by (simp add: has_own_def array_props_def)
  then show ?thesis
    using JArr find_index_key_None [of k "length xs"] by simp
next
  case (JStr s)
  assume "\<not> has_own v k"
  then have "k \<notin> set (map index_key [0..<length s])"
    using JStr by (simp add: has_own_def array_props_def)
  then show ?thesis
    using JStr find_index_key_None [of k "length s"] by simp
qed simp_all

lemma lookup_absent:
  "\<not> has_own v k \<Longrightarrow> k \<noteq> ''length'' \<Longrightarrow> lookup v k = JUndefined"
  by (simp add: lookup_def own_property_absent)

lemma map_of_rev_absent: "k \<notin> set (map fst ps) \<Longrightarrow> map_of (rev ps) k = None"
  by (simp add: map_of_eq_None_iff)

text \<open>A member of an object literal that ends in a spread is visible unless the spread value
  has a field of the same name.\<close>

lemma lookup_literal_spread:
  assumes "\<not> has_own v k" and "map_of (rev members) k = Some x"
  shows "lookup (JObj (members @ own_props v)) k = x"
proof -
  have "map_of (rev (own_props v)) k = None"
    using assms(1) by (simp add: has_own_def map_of_rev_absent)
  then show ?thesis
    using assms(2) by (simp add: lookup_def map_add_def)
qed

lemma truthy_not_nullish: "truthy v \<Longrightarrow> \<not> nullish v"
  by (cases v) simp_all

lemma lookup_falsy: "\<not> truthy v \<Longrightarrow> k \<noteq> ''length'' \<Longrightarrow> lookup v k = JUndefined"
  by (cases v) (simp_all add: lookup_def)

lemma snd_resolve [simp]: "snd (resolve x) = Inr x"
  by (simp add: resolve_def)

lemma fst_resolve [simp]: "fst (resolve x) = []"
  by (simp add: resolve_def)

lemma snd_throw [simp]: "snd (throw t) = Inl t"
  by (simp add: throw_def)

lemma fst_throw [simp]: "fst (throw t) = []"
  by (simp add: throw_def)

lemma and_then_resolve [simp]: "and_then (resolve x) f = f x"
  by (simp add: and_then_def resolve_def split: prod.splits)

lemma and_then_throw [simp]: "and_then (throw t) f = throw t"
  by (simp add: and_then_def throw_def)

lemma catch_with_resolve [simp]: "catch_with (resolve x) h = resolve x"
  by (simp add: catch_with_def resolve_def)

lemma catch_with_throw [simp]: "catch_with (throw t) h = h t"
  by (simp add: catch_with_def throw_def split: prod.splits)

lemma snd_and_then:
  "snd (and_then p f) = (case snd p of Inl t \<Rightarrow> Inl t | Inr x \<Rightarrow> snd (f x))"
  by (simp add: and_then_def split: prod.splits sum.splits)

lemma fst_and_then:
  "fst (and_then p f) = fst p @ (case snd p of Inl t \<Rightarrow> [] | Inr x \<Rightarrow> fst (f x))"
  by (simp add: and_then_def split: prod.splits sum.splits)

lemma snd_catch_with:
  "snd (catch_with p h) = (case snd p of Inl t \<Rightarrow> snd (h t) | Inr x \<Rightarrow> Inr x)"
  by (simp add: catch_with_def split: prod.splits sum.splits)

lemma fst_catch_with:
  "fst (catch_with p h) = fst p @ (case snd p of Inl t \<Rightarrow> fst (h t) | Inr x \<Rightarrow> [])"
  by (simp add: catch_with_def split: prod.splits sum.splits)

lemma get_property_value: "\<not> nullish v \<Longrightarrow> get_property v k = resolve (lookup v k)"
  by (simp add: get_property_def)

lemma fst_get_property [simp]: "fst (get_property v k) = []"
  by (simp add: get_property_def)

lemma fst_call_httpClient [simp]: "fst (call_httpClient env rc) = [HttpClientRequest rc]"
  by (simp add: call_httpClient_def)

lemma snd_call_httpClient:
  "snd (call_httpClient env rc) =
     (case httpClient env rc of Inl e \<Rightarrow> Inl (Rejection e) | Inr r \<Rightarrow> Inr r)"
  by (simp add: call_httpClient_def)

lemma fst_call_axios [simp]: "fst (call_axios env rc) = [AxiosRequest rc]"
  by (simp add: call_axios_def)

lemma snd_call_axios:
  "snd (call_axios env rc) =
     (case axios env rc of Inl e \<Rightarrow> Inl (Rejection e) | Inr r \<Rightarrow> Inr r)"
  by (simp add: call_axios_def)

lemma fst_call_customGrant [simp]: "fst (call_customGrant env g) = [CustomGrantRequest g]"
  by (simp add: call_customGrant_def)

lemma snd_call_customGrant:
  "snd (call_customGrant env g) =
     (case customGrant env g of Inl e \<Rightarrow> Inl (Rejection e) | Inr r \<Rightarrow> Inr r)"
  by (simp add: call_customGrant_def)

section \<open>Properties of the profile service client\<close>

subsection \<open>Failures\<close>

lemma snd_getGravatarImage_catch:
  "snd (getGravatarImage_catch t) = Inl (uniform_exception GRAVATAR_IMAGE_FETCH_REQUEST_ERROR t)"
  by (simp add: getGravatarImage_catch_def uniform_exception_def new_IdentityAppsApiException_def)

lemma snd_getProfileInfo_catch:
  "snd (getProfileInfo_catch t) = Inl (uniform_exception PROFILE_INFO_FETCH_REQUEST_ERROR t)"
  by (simp add: getProfileInfo_catch_def uniform_exception_def new_IdentityAppsApiException_def
      snd_and_then emit_def)

lemma snd_updateProfileInfo_catch:
  "snd (updateProfileInfo_catch t) = Inl (uniform_exception PROFILE_INFO_UPDATE_REQUEST_ERROR t)"
  by (simp add: updateProfileInfo_catch_def uniform_exception_def new_IdentityAppsApiException_def)

lemma snd_getProfileSchemas_catch:
  "snd (getProfileSchemas_catch t) = Inl (uniform_exception SCHEMA_FETCH_REQUEST_ERROR t)"
  by (simp add: getProfileSchemas_catch_def uniform_exception_def new_IdentityAppsApiException_def)

lemma snd_switchAccount_catch:
  "snd (switchAccount_catch t) = Inl (uniform_exception ACCOUNT_SWITCH_REQUEST_ERROR t)"
  by (simp add: switchAccount_catch_def uniform_exception_def new_IdentityAppsApiException_def)

lemma snd_getGravatarImage:
  "snd (getGravatarImage env email sz dflt fb) =
     (case axios env (getGravatarImage_request env email sz dflt fb) of
        Inl e \<Rightarrow> Inl (uniform_exception GRAVATAR_IMAGE_FETCH_REQUEST_ERROR (Rejection e))
      | Inr r \<Rightarrow> Inr (url (getGravatarImage_request env email sz dflt fb)))"
  by (simp add: getGravatarImage_def snd_catch_with snd_and_then snd_call_axios
      snd_getGravatarImage_catch split: sum.splits)

lemma snd_getProfileInfo:
  "snd (getProfileInfo env g) =
     (case httpClient env (getProfileInfo_request env) of
        Inl e \<Rightarrow> Inl (uniform_exception PROFILE_INFO_FETCH_REQUEST_ERROR (Rejection e))
      | Inr r \<Rightarrow>
          (case snd (getProfileInfo_then env g r) of
             Inl t \<Rightarrow> Inl (uniform_exception PROFILE_INFO_FETCH_REQUEST_ERROR t)
           | Inr v \<Rightarrow> Inr v))"
  by (simp add: getProfileInfo_def snd_catch_with snd_and_then snd_call_httpClient
      snd_getProfileInfo_catch split: sum.splits)

lemma snd_updateProfileInfo:
  "snd (updateProfileInfo env info) =
     (case httpClient env (updateProfileInfo_request env info) of
        Inl e \<Rightarrow> Inl (uniform_exception PROFILE_INFO_UPDATE_REQUEST_ERROR (Rejection e))
      | Inr r \<Rightarrow>
          (case snd (updateProfileInfo_then r) of
             Inl t \<Rightarrow> Inl (uniform_exception PROFILE_INFO_UPDATE_REQUEST_ERROR t)
           | Inr v \<Rightarrow> Inr v))"
  by (simp add: updateProfileInfo_def snd_catch_with snd_and_then snd_call_httpClient
      snd_updateProfileInfo_catch split: sum.splits)

lemma snd_getProfileSchemas:
  "snd (getProfileSchemas env) =
     (case httpClient env (getProfileSchemas_request env) of
        Inl e \<Rightarrow> Inl (uniform_exception SCHEMA_FETCH_REQUEST_ERROR (Rejection e))
      | Inr r \<Rightarrow>
          (case snd (getProfileSchemas_then r) of
             Inl t \<Rightarrow> Inl (uniform_exception SCHEMA_FETCH_REQUEST_ERROR t)
           | Inr v \<Rightarrow> Inr v))"
  by (simp add: getProfileSchemas_def snd_catch_with snd_and_then snd_call_httpClient
      snd_getProfileSchemas_catch split: sum.splits)

lemma snd_switchAccount:
  "snd (switchAccount env account) =
     (case customGrant env (switchAccount_grant account) of
        Inl e \<Rightarrow> Inl (uniform_exception ACCOUNT_SWITCH_REQUEST_ERROR (Rejection e))
      | Inr r \<Rightarrow> Inr (if nullish r then JUndefined else lookup r ''data''))"
  by (simp add: switchAccount_def snd_catch_with snd_and_then snd_call_customGrant
      snd_switchAccount_catch switchAccount_then_def split: sum.splits)

lemma uniform_exception_code:
  "\<exists>x. uniform_exception c original = ApiException x \<and> errorCode x = c"
  by (simp add: uniform_exception_def)

text \<open>
  C7. Each of the five client operations fails in one way only: with an
  \<open>IdentityAppsApiException\<close> that carries the error code constant fixed for the operation
  and the stack, code, request, response and request config of the original error. The
  original error is the rejection of the HTTP layer (of the custom grant, for
  \<open>switchAccount\<close>) or, when that resolved, what the handler of the response threw; when
  neither fails, the operation resolves with the handler's value. (The helpers that build a
  request, all outside the sources, are taken to return, and so is the callback.)
\<close>

theorem failures_are_uniform_exceptions:
  "snd (getGravatarImage env email sz dflt fb) =
     (case axios env (getGravatarImage_request env email sz dflt fb) of
        Inl e \<Rightarrow> Inl (uniform_exception GRAVATAR_IMAGE_FETCH_REQUEST_ERROR (Rejection e))
      | Inr r \<Rightarrow> Inr (url (getGravatarImage_request env email sz dflt fb)))
   \<and> snd (getProfileInfo env g) =
     (case httpClient env (getProfileInfo_request env) of
        Inl e \<Rightarrow> Inl (uniform_exception PROFILE_INFO_FETCH_REQUEST_ERROR (Rejection e))
      | Inr r \<Rightarrow>
          (case snd (getProfileInfo_then env g r) of
             Inl t \<Rightarrow> Inl (uniform_exception PROFILE_INFO_FETCH_REQUEST_ERROR t)
           | Inr v \<Rightarrow> Inr v))
   \<and> snd (updateProfileInfo env info) =
     (case httpClient env (updateProfileInfo_request env info) of
        Inl e \<Rightarrow> Inl (uniform_exception PROFILE_INFO_UPDATE_REQUEST_ERROR (Rejection e))
      | Inr r \<Rightarrow>
          (case snd (updateProfileInfo_then r) of
             Inl t \<Rightarrow> Inl (uniform_exception PROFILE_INFO_UPDATE_REQUEST_ERROR t)
           | Inr v \<Rightarrow> Inr v))
   \<and> snd (getProfileSchemas env) =
     (case httpClient env (getProfileSchemas_request env) of
        Inl e \<Rightarrow> Inl (uniform_exception SCHEMA_FETCH_REQUEST_ERROR (Rejection e))
      | Inr r \<Rightarrow>
          (case snd (getProfileSchemas_then r) of
             Inl t \<Rightarrow> Inl (uniform_exception SCHEMA_FETCH_REQUEST_ERROR t)
           | Inr v \<Rightarrow> Inr v))
   \<and> snd (switchAccount env account) =
     (case customGrant env (switchAccount_grant account) of
        Inl e \<Rightarrow> Inl (uniform_exception ACCOUNT_SWITCH_REQUEST_ERROR (Rejection e))
      | Inr r \<Rightarrow> Inr (if nullish r then JUndefined else lookup r ''data''))
   \<and> (\<forall>t. snd (getGravatarImage env email sz dflt fb) = Inl t \<longrightarrow>
         (\<exists>x. t = ApiException x \<and> errorCode x = GRAVATAR_IMAGE_FETCH_REQUEST_ERROR))
   \<and> (\<forall>t. snd (getProfileInfo env g) = Inl t \<longrightarrow>
         (\<exists>x. t = ApiException x \<and> errorCode x = PROFILE_INFO_FETCH_REQUEST_ERROR))
   \<and> (\<forall>t. snd (updateProfileInfo env info) = Inl t \<longrightarrow>
         (\<exists>x. t = ApiException x \<and> errorCode x = PROFILE_INFO_UPDATE_REQUEST_ERROR))
   \<and> (\<forall>t. snd (getProfileSchemas env) = Inl t \<longrightarrow>
         (\<exists>x. t = ApiException x \<and> errorCode x = SCHEMA_FETCH_REQUEST_ERROR))
   \<and> (\<forall>t. snd (switchAccount env account) = Inl t \<longrightarrow>
         (\<exists>x. t = ApiException x \<and> errorCode x = ACCOUNT_SWITCH_REQUEST_ERROR))"
proof (intro conjI allI impI)
  show "snd (getGravatarImage env email sz dflt fb) =
     (case axios env (getGravatarImage_request env email sz dflt fb) of
        Inl e \<Rightarrow> Inl (uniform_exception GRAVATAR_IMAGE_FETCH_REQUEST_ERROR (Rejection e))
      | Inr r \<Rightarrow> Inr (url (getGravatarImage_request env email sz dflt fb)))"
    by (rule snd_getGravatarImage)
  show "snd (getProfileInfo env g) =
     (case httpClient env (getProfileInfo_request env) of
        Inl e \<Rightarrow> Inl (uniform_exception PROFILE_INFO_FETCH_REQUEST_ERROR (Rejection e))
      | Inr r \<Rightarrow>
          (case snd (getProfileInfo_then env g r) of
             Inl t \<Rightarrow> Inl (uniform_exception PROFILE_INFO_FETCH_REQUEST_ERROR t)
           | Inr v \<Rightarrow> Inr v))"
    by (rule snd_getProfileInfo)
  show "snd (updateProfileInfo env info) =
     (case httpClient env (updateProfileInfo_request env info) of
        Inl e \<Rightarrow> Inl (uniform_exception PROFILE_INFO_UPDATE_REQUEST_ERROR (Rejection e))
      | Inr r \<Rightarrow>
          (case snd (updateProfileInfo_then r) of
             Inl t \<Rightarrow> Inl (uniform_exception PROFILE_INFO_UPDATE_REQUEST_ERROR t)
           | Inr v \<Rightarrow> Inr v))"
    by (rule snd_updateProfileInfo)
  show "snd (getProfileSchemas env) =
     (case httpClient env (getProfileSchemas_request env) of
        Inl e \<Rightarrow> Inl (uniform_exception SCHEMA_FETCH_REQUEST_ERROR (Rejection e))
      | Inr r \<Rightarrow>
          (case snd (getProfileSchemas_then r) of
             Inl t \<Rightarrow> Inl (uniform_exception SCHEMA_FETCH_REQUEST_ERROR t)
           | Inr v \<Rightarrow> Inr v))"
    by (rule snd_getProfileSchemas)
  show "snd (switchAccount env account) =
     (case customGrant env (switchAccount_grant account) of
        Inl e \<Rightarrow> Inl (uniform_exception ACCOUNT_SWITCH_REQUEST_ERROR (Rejection e))
      | Inr r \<Rightarrow> Inr (if nullish r then JUndefined else lookup r ''data''))"
    by (rule snd_switchAccount)
next
  fix t assume "snd (getGravatarImage env email sz dflt fb) = Inl t"
  then show "\<exists>x. t = ApiException x \<and> errorCode x = GRAVATAR_IMAGE_FETCH_REQUEST_ERROR"
    using uniform_exception_code [of GRAVATAR_IMAGE_FETCH_REQUEST_ERROR]
    by (auto simp: snd_getGravatarImage split: sum.splits)
next
  fix t assume "snd (getProfileInfo env g) = Inl t"
  then show "\<exists>x. t = ApiException x \<and> errorCode x = PROFILE_INFO_FETCH_REQUEST_ERROR"
    using uniform_exception_code [of PROFILE_INFO_FETCH_REQUEST_ERROR]
    by (auto simp: snd_getProfileInfo split: sum.splits)
next
  fix t assume "snd (updateProfileInfo env info) = Inl t"
  then show "\<exists>x. t = ApiException x \<and> errorCode x = PROFILE_INFO_UPDATE_REQUEST_ERROR"
    using uniform_exception_code [of PROFILE_INFO_UPDATE_REQUEST_ERROR]
    by (auto simp: snd_updateProfileInfo split: sum.splits)
next
  fix t assume "snd (getProfileSchemas env) = Inl t"
  then show "\<exists>x. t = ApiException x \<and> errorCode x = SCHEMA_FETCH_REQUEST_ERROR"
    using uniform_exception_code [of SCHEMA_FETCH_REQUEST_ERROR]
    by (auto simp: snd_getProfileSchemas split: sum.splits)
next
  fix t assume "snd (switchAccount env account) = Inl t"
  then show "\<exists>x. t = ApiException x \<and> errorCode x = ACCOUNT_SWITCH_REQUEST_ERROR"
    using uniform_exception_code [of ACCOUNT_SWITCH_REQUEST_ERROR]
    by (auto simp: snd_switchAccount split: sum.splits)
qed

theorem failures_are_uniform_exceptions_witness:
  "snd (getGravatarImage offline_env (JStr ''alice@example.com'') JUndefined JUndefined JUndefined) =
     Inl (uniform_exception GRAVATAR_IMAGE_FETCH_REQUEST_ERROR (Rejection network_error))
   \<and> snd (getProfileInfo offline_env None) =
     Inl (uniform_exception PROFILE_INFO_FETCH_REQUEST_ERROR (Rejection network_error))
   \<and> snd (updateProfileInfo offline_env (JObj [])) =
     Inl (uniform_exception PROFILE_INFO_UPDATE_REQUEST_ERROR (Rejection network_error))
   \<and> snd (getProfileSchemas offline_env) =
     Inl (uniform_exception SCHEMA_FETCH_REQUEST_ERROR (Rejection network_error))
   \<and> snd (switchAccount offline_env example_account) =
     Inl (uniform_exception ACCOUNT_SWITCH_REQUEST_ERROR (Rejection network_error))
   \<and> uniform_exception ACCOUNT_SWITCH_REQUEST_ERROR (Rejection network_error) =
     ApiException
       \<lparr>errorCode = ACCOUNT_SWITCH_REQUEST_ERROR, stackTrace = JStr ''Error: Network Error'',
        httpStatusOrCode = JStr ''ERR_NETWORK'', exception_request = JObj [],
        exception_response = None, requestConfig = JObj []\<rparr>"
proof -
  note all = failures_are_uniform_exceptions [of offline_env "JStr ''alice@example.com''"
      JUndefined JUndefined JUndefined None "JObj []" example_account]
  have offline:
    "\<And>rc. axios offline_env rc = Inl network_error"
    "\<And>rc. httpClient offline_env rc = Inl network_error"
    "\<And>gr. customGrant offline_env gr = Inl network_error"
    by (simp_all add: offline_env_def example_env_def)
  have "snd (getGravatarImage offline_env (JStr ''alice@example.com'') JUndefined JUndefined
      JUndefined) = Inl (uniform_exception GRAVATAR_IMAGE_FETCH_REQUEST_ERROR (Rejection network_error))"
    using all [THEN conjunct1] by (simp add: offline)
  moreover have "snd (getProfileInfo offline_env None) =
      Inl (uniform_exception PROFILE_INFO_FETCH_REQUEST_ERROR (Rejection network_error))"
    using all [THEN conjunct2, THEN conjunct1] by (simp add: offline)
  moreover have "snd (updateProfileInfo offline_env (JObj [])) =
      Inl (uniform_exception PROFILE_INFO_UPDATE_REQUEST_ERROR (Rejection network_error))"
    using all [THEN conjunct2, THEN conjunct2, THEN conjunct1] by (simp add: offline)
  moreover have "snd (getProfileSchemas offline_env) =
      Inl (uniform_exception SCHEMA_FETCH_REQUEST_ERROR (Rejection network_error))"
    using all [THEN conjunct2, THEN conjunct2, THEN conjunct2, THEN conjunct1]
    by (simp add: offline)
  moreover have "snd (switchAccount offline_env example_account) =
      Inl (uniform_exception ACCOUNT_SWITCH_REQUEST_ERROR (Rejection network_error))"
    using all [THEN conjunct2, THEN conjunct2, THEN conjunct2, THEN conjunct2, THEN conjunct1]
    by (simp add: offline)
  moreover have "uniform_exception ACCOUNT_SWITCH_REQUEST_ERROR (Rejection network_error) =
     ApiException
       \<lparr>errorCode = ACCOUNT_SWITCH_REQUEST_ERROR, stackTrace = JStr ''Error: Network Error'',
        httpStatusOrCode = JStr ''ERR_NETWORK'', exception_request = JObj [],
        exception_response = None, requestConfig = JObj []\<rparr>"
    by (simp add: uniform_exception_def network_error_def)
  ultimately show ?thesis by blast
qed

subsection \<open>Responses with a status other than 200\<close>

lemma getProfileInfo_then_invalid:
  "status r \<noteq> 200 \<Longrightarrow>
   getProfileInfo_then env g r =
     throw (ApiException (new_IdentityAppsApiException
       PROFILE_INFO_FETCH_REQUEST_INVALID_RESPONSE_CODE_ERROR
       JNull (JNum (status r)) (response_request r) (Some r) (response_config r)))"
  by (simp add: getProfileInfo_then_def)

lemma updateProfileInfo_then_invalid:
  "status r \<noteq> 200 \<Longrightarrow>
   updateProfileInfo_then r =
     throw (ApiException (new_IdentityAppsApiException
       PROFILE_INFO_UPDATE_REQUEST_INVALID_RESPONSE_CODE_ERROR
       JNull (JNum (status r)) (response_request r) (Some r) (response_config r)))"
  by (simp add: updateProfileInfo_then_def)

lemma getProfileSchemas_then_invalid:
  "status r \<noteq> 200 \<Longrightarrow>
   getProfileSchemas_then r =
     throw (ApiException (new_IdentityAppsApiException
       SCHEMA_FETCH_REQUEST_INVALID_RESPONSE_CODE_ERROR
       JNull (JNum (status r)) (response_request r) (Some r) (response_config r)))"
  by (simp add: getProfileSchemas_then_def)

lemma uniform_exception_of_invalid:
  "\<exists>x. uniform_exception c (ApiException (new_IdentityAppsApiException c' JNull n req (Some r) cfg))
         = ApiException x
       \<and> httpStatusOrCode x = n \<and> exception_response x = Some r"
  by (simp add: uniform_exception_def new_IdentityAppsApiException_def)

text \<open>
  C1 (as amended). For \<open>getProfileInfo\<close>, \<open>updateProfileInfo\<close> and \<open>getProfileSchemas\<close>, a
  response with a status other than 200 makes the handler of the response throw an
  \<open>IdentityAppsApiException\<close> with the request's designated invalid-response-code constant,
  the status as its code and the response attached, and the call fails with an
  \<open>IdentityAppsApiException\<close> that carries that status and that response.
  \<open>getGravatarImage\<close> tests no status: it resolves with the Gravatar URL for every response
  the HTTP layer delivers.
\<close>

theorem invalid_response_code_is_raised:
  "(\<forall>r. httpClient env (getProfileInfo_request env) = Inr r \<and> status r \<noteq> 200 \<longrightarrow>
      snd (getProfileInfo_then env g r) =
        Inl (ApiException (new_IdentityAppsApiException
          PROFILE_INFO_FETCH_REQUEST_INVALID_RESPONSE_CODE_ERROR
          JNull (JNum (status r)) (response_request r) (Some r) (response_config r)))
      \<and> (\<exists>x. snd (getProfileInfo env g) = Inl (ApiException x)
             \<and> httpStatusOrCode x = JNum (status r) \<and> exception_response x = Some r))
   \<and> (\<forall>r. httpClient env (updateProfileInfo_request env info) = Inr r \<and> status r \<noteq> 200 \<longrightarrow>
      snd (updateProfileInfo_then r) =
        Inl (ApiException (new_IdentityAppsApiException
          PROFILE_INFO_UPDATE_REQUEST_INVALID_RESPONSE_CODE_ERROR
          JNull (JNum (status r)) (response_request r) (Some r) (response_config r)))
      \<and> (\<exists>x. snd (updateProfileInfo env info) = Inl (ApiException x)
             \<and> httpStatusOrCode x = JNum (status r) \<and> exception_response x = Some r))
   \<and> (\<forall>r. httpClient env (getProfileSchemas_request env) = Inr r \<and> status r \<noteq> 200 \<longrightarrow>
      snd (getProfileSchemas_then r) =
        Inl (ApiException (new_IdentityAppsApiException
          SCHEMA_FETCH_REQUEST_INVALID_RESPONSE_CODE_ERROR
          JNull (JNum (status r)) (response_request r) (Some r) (response_config r)))
      \<and> (\<exists>x. snd (getProfileSchemas env) = Inl (ApiException x)
             \<and> httpStatusOrCode x = JNum (status r) \<and> exception_response x = Some r))
   \<and> (\<forall>r. axios env (getGravatarImage_request env email sz dflt fb) = Inr r \<longrightarrow>
      snd (getGravatarImage env email sz dflt fb) =
        Inr (url (getGravatarImage_request env email sz dflt fb)))"
proof (intro conjI allI impI)
  fix r assume a: "httpClient env (getProfileInfo_request env) = Inr r \<and> status r \<noteq> 200"
  then show "snd (getProfileInfo_then env g r) =
        Inl (ApiException (new_IdentityAppsApiException
          PROFILE_INFO_FETCH_REQUEST_INVALID_RESPONSE_CODE_ERROR
          JNull (JNum (status r)) (response_request r) (Some r) (response_config r)))"
    by (simp add: getProfileInfo_then_invalid)
  from a show "\<exists>x. snd (getProfileInfo env g) = Inl (ApiException x)
             \<and> httpStatusOrCode x = JNum (status r) \<and> exception_response x = Some r"
    using uniform_exception_of_invalid
    by (simp add: snd_getProfileInfo getProfileInfo_then_invalid)
next
  fix r assume a: "httpClient env (updateProfileInfo_request env info) = Inr r \<and> status r \<noteq> 200"
  then show "snd (updateProfileInfo_then r) =
        Inl (ApiException (new_IdentityAppsApiException
          PROFILE_INFO_UPDATE_REQUEST_INVALID_RESPONSE_CODE_ERROR
          JNull (JNum (status r)) (response_request r) (Some r) (response_config r)))"
    by (simp add: updateProfileInfo_then_invalid)
  from a show "\<exists>x. snd (updateProfileInfo env info) = Inl (ApiException x)
             \<and> httpStatusOrCode x = JNum (status r) \<and> exception_response x = Some r"
    using uniform_exception_of_invalid
    by (simp add: snd_updateProfileInfo updateProfileInfo_then_invalid)
next
  fix r assume a: "httpClient env (getProfileSchemas_request env) = Inr r \<and> status r \<noteq> 200"
  then show "snd (getProfileSchemas_then r) =
        Inl (ApiException (new_IdentityAppsApiException
          SCHEMA_FETCH_REQUEST_INVALID_RESPONSE_CODE_ERROR
          JNull (JNum (status r)) (response_request r) (Some r) (response_config r)))"
    by (simp add: getProfileSchemas_then_invalid)
  from a show "\<exists>x. snd (getProfileSchemas env) = Inl (ApiException x)
             \<and> httpStatusOrCode x = JNum (status r) \<and> exception_response x = Some r"
    using uniform_exception_of_invalid
    by (simp add: snd_getProfileSchemas getProfileSchemas_then_invalid)
next
  fix r assume "axios env (getGravatarImage_request env email sz dflt fb) = Inr r"
  then show "snd (getGravatarImage env email sz dflt fb) =
        Inr (url (getGravatarImage_request env email sz dflt fb))"
    by (simp add: snd_getGravatarImage)
qed

theorem invalid_response_code_is_raised_witness:
  "httpClient no_content_env (getProfileInfo_request no_content_env) =
     Inr (example_response 204 JNull)
   \<and> status (example_response 204 JNull) \<noteq> 200
   \<and> snd (getProfileInfo_then no_content_env None (example_response 204 JNull)) =
       Inl (ApiException
         \<lparr>errorCode = PROFILE_INFO_FETCH_REQUEST_INVALID_RESPONSE_CODE_ERROR, stackTrace = JNull,
          httpStatusOrCode = JNum 204, exception_request = JObj [],
          exception_response = Some (example_response 204 JNull), requestConfig = JObj []\<rparr>)
   \<and> (\<exists>x. snd (getProfileInfo no_content_env None) = Inl (ApiException x)
          \<and> httpStatusOrCode x = JNum 204
          \<and> exception_response x = Some (example_response 204 JNull))
   \<and> (\<exists>x. snd (updateProfileInfo no_content_env (JObj [])) = Inl (ApiException x)
          \<and> httpStatusOrCode x = JNum 204
          \<and> exception_response x = Some (example_response 204 JNull))
   \<and> (\<exists>x. snd (getProfileSchemas no_content_env) = Inl (ApiException x)
          \<and> httpStatusOrCode x = JNum 204
          \<and> exception_response x = Some (example_response 204 JNull))
   \<and> snd (getGravatarImage no_content_env (JStr ''alice@example.com'') JUndefined JUndefined
          JUndefined) = Inr ''https://www.gravatar.com/avatar/0c83f57c''"
proof -
  note all = invalid_response_code_is_raised [of no_content_env None "JObj []"
      "JStr ''alice@example.com''" JUndefined JUndefined JUndefined]
  have http: "\<And>rc. httpClient no_content_env rc = Inr (example_response 204 JNull)"
    and ax: "\<And>rc. axios no_content_env rc = Inr (example_response 204 JNull)"
    by (simp_all add: no_content_env_def example_env_def)
  have st: "status (example_response 204 JNull) \<noteq> 200"
    and st': "status (example_response 204 JNull) = 204"
    by (simp_all add: example_response_def)
  have exc: "new_IdentityAppsApiException
          PROFILE_INFO_FETCH_REQUEST_INVALID_RESPONSE_CODE_ERROR
          JNull (JNum 204)
          (response_request (example_response 204 JNull)) (Some (example_response 204 JNull))
          (response_config (example_response 204 JNull)) =
        \<lparr>errorCode = PROFILE_INFO_FETCH_REQUEST_INVALID_RESPONSE_CODE_ERROR, stackTrace = JNull,
          httpStatusOrCode = JNum 204, exception_request = JObj [],
          exception_response = Some (example_response 204 JNull), requestConfig = JObj []\<rparr>"
    by (simp add: new_IdentityAppsApiException_def example_response_def)
  have url: "url (getGravatarImage_request no_content_env (JStr ''alice@example.com'') JUndefined
       JUndefined JUndefined) = ''https://www.gravatar.com/avatar/0c83f57c''"
    by (simp add: getGravatarImage_request_def no_content_env_def example_env_def)
  have profile:
    "snd (getProfileInfo_then no_content_env None (example_response 204 JNull)) =
       Inl (ApiException
         \<lparr>errorCode = PROFILE_INFO_FETCH_REQUEST_INVALID_RESPONSE_CODE_ERROR, stackTrace = JNull,
          httpStatusOrCode = JNum 204, exception_request = JObj [],
          exception_response = Some (example_response 204 JNull), requestConfig = JObj []\<rparr>)
     \<and> (\<exists>x. snd (getProfileInfo no_content_env None) = Inl (ApiException x)
           \<and> httpStatusOrCode x = JNum 204
           \<and> exception_response x = Some (example_response 204 JNull))"
    using all [THEN conjunct1, rule_format, OF conjI, OF http st] unfolding st' exc .
  have update:
    "\<exists>x. snd (updateProfileInfo no_content_env (JObj [])) = Inl (ApiException x)
           \<and> httpStatusOrCode x = JNum 204
           \<and> exception_response x = Some (example_response 204 JNull)"
    using all [THEN conjunct2, THEN conjunct1, rule_format, OF conjI, OF http st, THEN conjunct2]
    unfolding st' .
  have schemas:
    "\<exists>x. snd (getProfileSchemas no_content_env) = Inl (ApiException x)
           \<and> httpStatusOrCode x = JNum 204
           \<and> exception_response x = Some (example_response 204 JNull)"
    using all [THEN conjunct2, THEN conjunct2, THEN conjunct1, rule_format, OF conjI,
        OF http st, THEN conjunct2]
    unfolding st' .
  have gravatar:
    "snd (getGravatarImage no_content_env (JStr ''alice@example.com'') JUndefined JUndefined
       JUndefined) = Inr ''https://www.gravatar.com/avatar/0c83f57c''"
    using all [THEN conjunct2, THEN conjunct2, THEN conjunct2, rule_format, OF ax]
    unfolding url .
  show ?thesis
    using profile update schemas gravatar http [of "getProfileInfo_request no_content_env"] st
    by blast
qed

text \<open>
  The claim C1 as the specification states it fails twice on a response with status 204:
  \<open>getGravatarImage\<close> resolves, and the exception that \<open>getProfileInfo\<close> surfaces to its
  caller carries the general constant of the request, not the invalid-response-code one,
  because the \<open>catch\<close> handler chained after the response handler wraps what that handler
  threw.
\<close>

theorem invalid_response_code_counterexample:
  "snd (getGravatarImage no_content_env (JStr ''alice@example.com'') JUndefined JUndefined
      JUndefined) = Inr ''https://www.gravatar.com/avatar/0c83f57c''
   \<and> snd (getProfileInfo no_content_env None) =
       Inl (ApiException
         \<lparr>errorCode = PROFILE_INFO_FETCH_REQUEST_ERROR, stackTrace = JNull,
          httpStatusOrCode = JNum 204, exception_request = JObj [],
          exception_response = Some (example_response 204 JNull), requestConfig = JObj []\<rparr>)
   \<and> PROFILE_INFO_FETCH_REQUEST_ERROR \<noteq> PROFILE_INFO_FETCH_REQUEST_INVALID_RESPONSE_CODE_ERROR"
  by (simp add: snd_getGravatarImage snd_getProfileInfo getProfileInfo_then_invalid
      no_content_env_def example_env_def example_response_def getGravatarImage_request_def
      uniform_exception_def new_IdentityAppsApiException_def)

subsection \<open>switchAccount\<close>

lemma fst_switchAccount:
  "fst (switchAccount env account) = [CustomGrantRequest (switchAccount_grant account)]"
  by (simp add: switchAccount_def fst_catch_with fst_and_then snd_and_then snd_call_customGrant
      switchAccount_then_def switchAccount_catch_def split: sum.splits)

text \<open>
  C8. For every linked account, \<open>switchAccount\<close> issues exactly one custom grant; the data
  of the grant carry the grant type \<open>account_switch\<close>, the account's tenant domain as
  \<open>tenant-domain\<close>, its user name as \<open>username\<close> and its user store domain as
  \<open>userstore-domain\<close>. When the grant is rejected, the call fails with the account-switch
  request error constant and the diagnostic context of the rejection, and it fails with
  nothing else.
\<close>

theorem switchAccount_grant_request:
  "fst (switchAccount env account) = [CustomGrantRequest (switchAccount_grant account)]
   \<and> lookup (grant_data (switchAccount_grant account)) ''grantType'' = JStr ''account_switch''
   \<and> lookup (grant_data (switchAccount_grant account)) ''tenant-domain'' =
       JStr (tenantDomain account)
   \<and> lookup (grant_data (switchAccount_grant account)) ''username'' = JStr (username account)
   \<and> lookup (grant_data (switchAccount_grant account)) ''userstore-domain'' =
       JStr (userStoreDomain account)
   \<and> (\<forall>e. customGrant env (switchAccount_grant account) = Inl e \<longrightarrow>
         snd (switchAccount env account) =
           Inl (uniform_exception ACCOUNT_SWITCH_REQUEST_ERROR (Rejection e)))
   \<and> (\<forall>t. snd (switchAccount env account) = Inl t \<longrightarrow>
         (\<exists>x. t = ApiException x \<and> errorCode x = ACCOUNT_SWITCH_REQUEST_ERROR))"
proof (intro conjI allI impI)
  show "fst (switchAccount env account) = [CustomGrantRequest (switchAccount_grant account)]"
    by (rule fst_switchAccount)
  show "lookup (grant_data (switchAccount_grant account)) ''grantType'' = JStr ''account_switch''"
    by (simp add: switchAccount_grant_def lookup_def)
  show "lookup (grant_data (switchAccount_grant account)) ''tenant-domain'' =
       JStr (tenantDomain account)"
    by (simp add: switchAccount_grant_def lookup_def)
  show "lookup (grant_data (switchAccount_grant account)) ''username'' = JStr (username account)"
    by (simp add: switchAccount_grant_def lookup_def)
  show "lookup (grant_data (switchAccount_grant account)) ''userstore-domain'' =
       JStr (userStoreDomain account)"
    by (simp add: switchAccount_grant_def lookup_def)
next
  fix e assume "customGrant env (switchAccount_grant account) = Inl e"
  then show "snd (switchAccount env account) =
           Inl (uniform_exception ACCOUNT_SWITCH_REQUEST_ERROR (Rejection e))"
    by (simp add: snd_switchAccount)
next
  fix t assume "snd (switchAccount env account) = Inl t"
  then show "\<exists>x. t = ApiException x \<and> errorCode x = ACCOUNT_SWITCH_REQUEST_ERROR"
    using uniform_exception_code [of ACCOUNT_SWITCH_REQUEST_ERROR]
    by (auto simp: snd_switchAccount split: sum.splits)
qed

theorem switchAccount_grant_request_witness:
  "customGrant offline_env (switchAccount_grant example_account) = Inl network_error
   \<and> snd (switchAccount offline_env example_account) =
       Inl (ApiException
         \<lparr>errorCode = ACCOUNT_SWITCH_REQUEST_ERROR, stackTrace = JStr ''Error: Network Error'',
          httpStatusOrCode = JStr ''ERR_NETWORK'', exception_request = JObj [],
          exception_response = None, requestConfig = JObj []\<rparr>)
   \<and> lookup (grant_data (switchAccount_grant example_account)) ''tenant-domain'' =
       JStr ''carbon.super''
   \<and> lookup (grant_data (switchAccount_grant example_account)) ''username'' = JStr ''alice''
   \<and> lookup (grant_data (switchAccount_grant example_account)) ''userstore-domain'' =
       JStr ''PRIMARY''"
proof -
  note all = switchAccount_grant_request [of offline_env example_account]
  have rejected: "customGrant offline_env (switchAccount_grant example_account) = Inl network_error"
    by (simp add: offline_env_def example_env_def)
  have exc: "uniform_exception ACCOUNT_SWITCH_REQUEST_ERROR (Rejection network_error) =
     ApiException
       \<lparr>errorCode = ACCOUNT_SWITCH_REQUEST_ERROR, stackTrace = JStr ''Error: Network Error'',
        httpStatusOrCode = JStr ''ERR_NETWORK'', exception_request = JObj [],
        exception_response = None, requestConfig = JObj []\<rparr>"
    by (simp add: uniform_exception_def network_error_def)
  have account:
    "tenantDomain example_account = ''carbon.super''"
    "username example_account = ''alice''"
    "userStoreDomain example_account = ''PRIMARY''"
    by (simp_all add: example_account_def)
  have failed: "snd (switchAccount offline_env example_account) =
       Inl (ApiException
         \<lparr>errorCode = ACCOUNT_SWITCH_REQUEST_ERROR, stackTrace = JStr ''Error: Network Error'',
          httpStatusOrCode = JStr ''ERR_NETWORK'', exception_request = JObj [],
          exception_response = None, requestConfig = JObj []\<rparr>)"
    using all [THEN conjunct2, THEN conjunct2, THEN conjunct2, THEN conjunct2, THEN conjunct2,
        THEN conjunct1, rule_format, OF rejected]
    unfolding exc .
  have data:
    "lookup (grant_data (switchAccount_grant example_account)) ''tenant-domain'' =
       JStr ''carbon.super''
     \<and> lookup (grant_data (switchAccount_grant example_account)) ''username'' = JStr ''alice''
     \<and> lookup (grant_data (switchAccount_grant example_account)) ''userstore-domain'' =
       JStr ''PRIMARY''"
    using all [THEN conjunct2, THEN conjunct2] unfolding account by blast
  show ?thesis
    using rejected failed data by blast
qed

subsection \<open>getProfileSchemas\<close>

lemma getProfileSchemas_then_empty:
  "status r = 200 \<Longrightarrow> data r = JArr [] \<Longrightarrow>
   getProfileSchemas_then r =
     throw (TypeError ''TypeError: Cannot read properties of null or undefined'')"
  by (simp add: getProfileSchemas_then_def get_property_def lookup_JArr_0)

lemma getProfileSchemas_then_first:
  "status r = 200 \<Longrightarrow> data r = JArr (first # others) \<Longrightarrow> \<not> nullish first \<Longrightarrow>
   getProfileSchemas_then r = resolve (lookup first ''attributes'')"
  by (simp add: getProfileSchemas_then_def get_property_def lookup_JArr_0)

text \<open>
  C9 (as amended). For a response with status 200 whose data array is empty,
  \<open>getProfileSchemas\<close> rejects with the constant \<open>SCHEMA_FETCH_REQUEST_ERROR\<close>. For one
  whose data array is not empty and whose first element is neither \<open>null\<close> nor
  \<open>undefined\<close>, it resolves with exactly the \<open>attributes\<close> of the first element; this
  value is \<open>undefined\<close> when the element has no field \<open>attributes\<close>.
\<close>

theorem getProfileSchemas_first_attributes:
  "(\<forall>r. httpClient env (getProfileSchemas_request env) = Inr r \<and> status r = 200
        \<and> data r = JArr [] \<longrightarrow>
      (\<exists>x. snd (getProfileSchemas env) = Inl (ApiException x)
           \<and> errorCode x = SCHEMA_FETCH_REQUEST_ERROR))
   \<and> (\<forall>r first others. httpClient env (getProfileSchemas_request env) = Inr r \<and> status r = 200
        \<and> data r = JArr (first # others) \<and> \<not> nullish first \<longrightarrow>
      snd (getProfileSchemas env) = Inr (lookup first ''attributes'')
      \<and> (\<not> has_own first ''attributes'' \<longrightarrow> snd (getProfileSchemas env) = Inr JUndefined))"
proof (intro conjI allI impI)
  fix r
  assume "httpClient env (getProfileSchemas_request env) = Inr r \<and> status r = 200
      \<and> data r = JArr []"
  then show "\<exists>x. snd (getProfileSchemas env) = Inl (ApiException x)
      \<and> errorCode x = SCHEMA_FETCH_REQUEST_ERROR"
    by (simp add: snd_getProfileSchemas getProfileSchemas_then_empty uniform_exception_def)
next
  fix r first others
  assume a: "httpClient env (getProfileSchemas_request env) = Inr r \<and> status r = 200
      \<and> data r = JArr (first # others) \<and> \<not> nullish first"
  then show resolved: "snd (getProfileSchemas env) = Inr (lookup first ''attributes'')"
    by (simp add: snd_getProfileSchemas getProfileSchemas_then_first)
  assume "\<not> has_own first ''attributes''"
  then show "snd (getProfileSchemas env) = Inr JUndefined"
    using resolved by (simp add: lookup_absent)
qed

theorem getProfileSchemas_first_attributes_witness:
  "httpClient (ok_env (JArr [])) (getProfileSchemas_request (ok_env (JArr []))) =
     Inr (example_response 200 (JArr []))
   \<and> (\<exists>x. snd (getProfileSchemas (ok_env (JArr []))) = Inl (ApiException x)
          \<and> errorCode x = SCHEMA_FETCH_REQUEST_ERROR)
   \<and> snd (getProfileSchemas (ok_env (JArr [JObj [(''attributes'', JArr [JStr ''userName''])]])))
       = Inr (JArr [JStr ''userName''])"
proof -
  have http: "\<And>body rc. httpClient (ok_env body) rc = Inr (example_response 200 body)"
    by (simp add: ok_env_def example_env_def)
  have resp: "\<And>body. status (example_response 200 body) = 200"
    "\<And>body. data (example_response 200 body) = body"
    by (simp_all add: example_response_def)
  have empty: "\<exists>x. snd (getProfileSchemas (ok_env (JArr []))) = Inl (ApiException x)
          \<and> errorCode x = SCHEMA_FETCH_REQUEST_ERROR"
    using getProfileSchemas_first_attributes [of "ok_env (JArr [])", THEN conjunct1,
        rule_format, of "example_response 200 (JArr [])"] http resp
    by blast
  have "\<not> nullish (JObj [(''attributes'', JArr [JStr ''userName''])])"
    by simp
  then have "snd (getProfileSchemas (ok_env (JArr [JObj [(''attributes'', JArr [JStr ''userName''])]])))
       = Inr (lookup (JObj [(''attributes'', JArr [JStr ''userName''])]) ''attributes'')"
    using getProfileSchemas_first_attributes
        [of "ok_env (JArr [JObj [(''attributes'', JArr [JStr ''userName''])]])",
         THEN conjunct2, rule_format,
         of "example_response 200 (JArr [JObj [(''attributes'', JArr [JStr ''userName''])]])"
            "JObj [(''attributes'', JArr [JStr ''userName''])]" "[]"]
      http resp
    by blast
  then have first: "snd (getProfileSchemas (ok_env (JArr [JObj [(''attributes'', JArr [JStr ''userName''])]])))
       = Inr (JArr [JStr ''userName''])"
    by (simp add: lookup_def)
  show ?thesis
    using http [of "JArr []" "getProfileSchemas_request (ok_env (JArr []))"] empty first
    by blast
qed

text \<open>
  The claim C9 as stated fails on a 200 response whose first element has no field
  \<open>attributes\<close>: the call does not reject, it resolves with \<open>undefined\<close>.
\<close>

theorem getProfileSchemas_counterexample:
  "snd (getProfileSchemas (ok_env (JArr [JObj [(''id'', JStr ''urn:ietf:params:scim:schemas:core:2.0'')]])))
     = Inr JUndefined"
  by (simp add: snd_getProfileSchemas getProfileSchemas_then_first [where others = "[]"]
      ok_env_def example_env_def example_response_def lookup_def)

subsection \<open>getProfileInfo\<close>

lemma profileResponse_value:
  "\<not> nullish (data r) \<Longrightarrow>
   profileResponse r profileImage =
     resolve (JObj (
       [(''emails'', js_or (lookup (data r) ''emails'') (JStr [])),
        (''name'', js_or (lookup (data r) ''name'')
           (JObj [(''familyName'', JStr []), (''givenName'', JStr [])])),
        (''organisation'',
           if truthy (lookup (data r) orgKey)
           then lookup (lookup (data r) orgKey) ''organization'' else JStr []),
        (''phoneNumbers'', js_or (lookup (data r) ''phoneNumbers'') (JArr [])),
        (''profileUrl'', js_or (lookup (data r) ''profileUrl'') (JStr [])),
        (''responseStatus'', if status r \<noteq> 0 then JNum (status r) else JNull),
        (''roles'', js_or (lookup (data r) ''roles'') (JArr [])),
        (''userImage'', js_or (lookup (data r) ''userImage'') profileImage),
        (''userName'', js_or (lookup (data r) ''userName'') (JStr []))]
       @ own_props (data r)))"
  by (simp add: profileResponse_def get_property_value truthy_not_nullish)

lemma getProfileInfo_then_null:
  "status r = 200 \<Longrightarrow> nullish (data r) \<Longrightarrow>
   getProfileInfo_then env g r =
     throw (TypeError ''TypeError: Cannot read properties of null or undefined'')"
  by (simp add: getProfileInfo_then_def get_property_def)

lemma getProfileInfo_then_ok:
  "status r = 200 \<Longrightarrow> \<not> nullish (data r) \<Longrightarrow>
   getProfileInfo_then env g r =
     and_then
       (if isEmpty (lookup (data r) ''userImage'') \<and> \<not> truthy (lookup (data r) ''profileUrl'')
        then catch_with (gravatar_attempt env g r) (\<lambda>error. resolve [])
        else resolve [])
       (\<lambda>gravatar. profileResponse r
          (if truthy (lookup (data r) ''profileUrl'') then lookup (data r) ''profileUrl''
           else JStr gravatar))"
  by (simp add: getProfileInfo_then_def get_property_value)

lemma lookup_nullish: "nullish v \<Longrightarrow> k \<noteq> ''length'' \<Longrightarrow> lookup v k = JUndefined"
  by (cases v) (simp_all add: lookup_def)

text \<open>The email expression throws exactly when the body has no first email to read.\<close>

lemma snd_gravatar_email:
  assumes "\<not> nullish (data r)"
  shows "snd (gravatar_email r) =
     (if nullish (lookup (lookup (data r) ''emails'') ''0'')
      then Inl (TypeError ''TypeError: Cannot read properties of null or undefined'')
      else Inr (if is_string (lookup (lookup (data r) ''emails'') ''0'')
                then lookup (lookup (data r) ''emails'') ''0''
                else lookup (lookup (lookup (data r) ''emails'') ''0'') ''value''))"
proof (cases "nullish (lookup (data r) ''emails'')")
  case True
  then have "lookup (lookup (data r) ''emails'') ''0'' = JUndefined"
    by (simp add: lookup_nullish)
  then show ?thesis
    using assms True by (simp add: gravatar_email_def get_property_def)
next
  case False
  note has_emails = this
  show ?thesis
  proof (cases "nullish (lookup (lookup (data r) ''emails'') ''0'')")
    case True
    then have "\<not> is_string (lookup (lookup (data r) ''emails'') ''0'')"
      by (cases "lookup (lookup (data r) ''emails'') ''0''") simp_all
    then show ?thesis
      using assms has_emails True by (simp add: gravatar_email_def get_property_def)
  next
    case False
    then show ?thesis
      using assms has_emails by (simp add: gravatar_email_def get_property_def)
  qed
qed

lemma fst_gravatar_email [simp]: "fst (gravatar_email r) = []"
  by (simp add: gravatar_email_def fst_and_then split: sum.splits)

lemma fst_getGravatarImage:
  "fst (getGravatarImage env email sz dflt fb) =
     [AxiosRequest (getGravatarImage_request env email sz dflt fb)]"
  by (simp add: getGravatarImage_def fst_catch_with fst_and_then snd_and_then
      getGravatarImage_catch_def split: sum.splits)

lemma fst_gravatar_attempt:
  "fst (gravatar_attempt env g r) =
     (case snd (gravatar_email r) of
        Inl t \<Rightarrow> []
      | Inr email \<Rightarrow>
          [AxiosRequest (getGravatarImage_request env email (optional_chain g gravatar_size)
             (optional_chain g defaultImage) (optional_chain g fallback))])"
  by (simp add: gravatar_attempt_def fst_and_then fst_getGravatarImage split: sum.splits)

lemma no_callback_in_gravatar_attempt:
  "SCIMDisabledCallback \<notin> set (fst (gravatar_attempt env g r))"
  by (simp add: fst_gravatar_attempt split: sum.splits)

lemma fst_profileResponse [simp]: "fst (profileResponse r profileImage) = []"
proof (cases "nullish (data r)")
  case True
  then show ?thesis by (simp add: profileResponse_def get_property_def)
next
  case False
  then show ?thesis by (simp add: profileResponse_value)
qed

text \<open>The events and the value of the response handler on a 200 response with a body.\<close>

lemma fst_getProfileInfo_then_ok:
  "status r = 200 \<Longrightarrow> \<not> nullish (data r) \<Longrightarrow>
   fst (getProfileInfo_then env g r) =
     (if isEmpty (lookup (data r) ''userImage'') \<and> \<not> truthy (lookup (data r) ''profileUrl'')
      then fst (gravatar_attempt env g r) else [])"
  by (simp add: getProfileInfo_then_ok fst_and_then fst_catch_with snd_catch_with
      split: sum.splits)

lemma snd_getProfileInfo_then_ok:
  "status r = 200 \<Longrightarrow> \<not> nullish (data r) \<Longrightarrow>
   snd (getProfileInfo_then env g r) =
     snd (profileResponse r
       (if truthy (lookup (data r) ''profileUrl'') then lookup (data r) ''profileUrl''
        else JStr (if isEmpty (lookup (data r) ''userImage'')
                      \<and> \<not> truthy (lookup (data r) ''profileUrl'')
                   then (case snd (gravatar_attempt env g r) of Inl t \<Rightarrow> [] | Inr u \<Rightarrow> u)
                   else [])))"
  by (simp add: getProfileInfo_then_ok snd_and_then snd_catch_with split: sum.splits)

lemma no_callback_in_getProfileInfo_then:
  "SCIMDisabledCallback \<notin> set (fst (getProfileInfo_then env g r))"
proof (cases "status r = 200")
  case False
  then show ?thesis by (simp add: getProfileInfo_then_invalid)
next
  case True
  show ?thesis
  proof (cases "nullish (data r)")
    case True
    with \<open>status r = 200\<close> show ?thesis by (simp add: getProfileInfo_then_null)
  next
    case False
    with \<open>status r = 200\<close> show ?thesis
      by (simp add: fst_getProfileInfo_then_ok no_callback_in_gravatar_attempt)
  qed
qed

subsection \<open>The callback onSCIMDisabled\<close>

lemma lookup_status_truthy: "lookup d ''status'' = JStr ''500'' \<Longrightarrow> truthy d"
  by (cases d) (auto simp: lookup_def split: option.splits)

lemma scim_disabled_reports_500: "scim_disabled t = reports_500 (Inl t)"
  by (auto simp: scim_disabled_def reports_500_def lookup_status_truthy split: option.splits)

lemma reports_500_uniform_exception:
  "reports_500 (Inl (uniform_exception c t)) = reports_500 (Inl t)"
  by (simp add: reports_500_def uniform_exception_def)

lemma fst_getProfileInfo_catch:
  "fst (getProfileInfo_catch t) = (if scim_disabled t then [SCIMDisabledCallback] else [])"
  by (simp add: getProfileInfo_catch_def fst_and_then emit_def)

lemma events_getProfileInfo:
  "\<exists>before. fst (getProfileInfo env g) =
       before @ (if reports_500 (snd (getProfileInfo env g)) then [SCIMDisabledCallback] else [])
     \<and> SCIMDisabledCallback \<notin> set before"
proof (cases "httpClient env (getProfileInfo_request env)")
  case (Inl e)
  then have "fst (getProfileInfo env g) =
      [HttpClientRequest (getProfileInfo_request env)]
      @ (if scim_disabled (Rejection e) then [SCIMDisabledCallback] else [])"
    by (simp add: getProfileInfo_def fst_catch_with fst_and_then snd_and_then
        snd_call_httpClient fst_getProfileInfo_catch)
  moreover have "reports_500 (snd (getProfileInfo env g)) = scim_disabled (Rejection e)"
    using Inl
    by (simp add: snd_getProfileInfo reports_500_uniform_exception scim_disabled_reports_500)
  ultimately show ?thesis by auto
next
  case (Inr r)
  show ?thesis
  proof (cases "snd (getProfileInfo_then env g r)")
    case (Inl t)
    with Inr have "fst (getProfileInfo env g) =
        (HttpClientRequest (getProfileInfo_request env) # fst (getProfileInfo_then env g r))
        @ (if scim_disabled t then [SCIMDisabledCallback] else [])"
      by (simp add: getProfileInfo_def fst_catch_with fst_and_then snd_and_then
          snd_call_httpClient fst_getProfileInfo_catch)
    moreover have "reports_500 (snd (getProfileInfo env g)) = scim_disabled t"
      using Inl Inr
      by (simp add: snd_getProfileInfo reports_500_uniform_exception scim_disabled_reports_500)
    moreover have "SCIMDisabledCallback \<notin>
        set (HttpClientRequest (getProfileInfo_request env) # fst (getProfileInfo_then env g r))"
      by (simp add: no_callback_in_getProfileInfo_then)
    ultimately show ?thesis by metis
  next
    case (Inr v)
    with \<open>httpClient env (getProfileInfo_request env) = Inr r\<close>
    have "fst (getProfileInfo env g) =
        HttpClientRequest (getProfileInfo_request env) # fst (getProfileInfo_then env g r)"
      by (simp add: getProfileInfo_def fst_catch_with fst_and_then snd_and_then
          snd_call_httpClient)
    moreover have "\<not> reports_500 (snd (getProfileInfo env g))"
      using Inr \<open>httpClient env (getProfileInfo_request env) = Inr r\<close>
      by (simp add: snd_getProfileInfo reports_500_def)
    moreover have "SCIMDisabledCallback \<notin>
        set (HttpClientRequest (getProfileInfo_request env) # fst (getProfileInfo_then env g r))"
      by (simp add: no_callback_in_getProfileInfo_then)
    ultimately show ?thesis by auto
  qed
qed

lemma count_list_absent: "x \<notin> set xs \<Longrightarrow> count_list xs x = 0"
  by (induction xs) auto

text \<open>
  C3. The callback \<open>onSCIMDisabled\<close> is invoked exactly once by a call of \<open>getProfileInfo\<close>
  that fails with an error whose payload reports the status \<open>"500"\<close>, as the last thing
  the call does before it fails; by every other call, failing or succeeding, it is not
  invoked at all.
\<close>

theorem onSCIMDisabled_once_on_500:
  "count_list (fst (getProfileInfo env g)) SCIMDisabledCallback =
     (if reports_500 (snd (getProfileInfo env g)) then 1 else 0)
   \<and> (reports_500 (snd (getProfileInfo env g)) \<longrightarrow>
        (\<exists>t. snd (getProfileInfo env g) = Inl t)
        \<and> last (fst (getProfileInfo env g)) = SCIMDisabledCallback)"
proof -
  obtain before where events: "fst (getProfileInfo env g) =
       before @ (if reports_500 (snd (getProfileInfo env g)) then [SCIMDisabledCallback] else [])"
    and before: "SCIMDisabledCallback \<notin> set before"
    using events_getProfileInfo by blast
  have "count_list (fst (getProfileInfo env g)) SCIMDisabledCallback =
     (if reports_500 (snd (getProfileInfo env g)) then 1 else 0)"
    unfolding events using before by (simp add: count_list_absent)
  moreover have "last (fst (getProfileInfo env g)) = SCIMDisabledCallback"
    if "reports_500 (snd (getProfileInfo env g))"
    using that events by simp
  moreover have "\<exists>t. snd (getProfileInfo env g) = Inl t"
    if "reports_500 (snd (getProfileInfo env g))"
    using that by (cases "snd (getProfileInfo env g)") (simp_all add: reports_500_def)
  ultimately show ?thesis by blast
qed

theorem onSCIMDisabled_once_on_500_witness:
  "reports_500 (snd (getProfileInfo server_error_env None))
   \<and> count_list (fst (getProfileInfo server_error_env None)) SCIMDisabledCallback = 1
   \<and> last (fst (getProfileInfo server_error_env None)) = SCIMDisabledCallback
   \<and> \<not> reports_500 (snd (getProfileInfo offline_env None))
   \<and> count_list (fst (getProfileInfo offline_env None)) SCIMDisabledCallback = 0"
proof -
  have a: "reports_500 (snd (getProfileInfo server_error_env None))"
    by (simp add: snd_getProfileInfo server_error_env_def example_env_def reports_500_def
        uniform_exception_def server_error_def example_response_def lookup_def)
  have b: "\<not> reports_500 (snd (getProfileInfo offline_env None))"
    by (simp add: snd_getProfileInfo offline_env_def example_env_def reports_500_def
        uniform_exception_def network_error_def)
  have "count_list (fst (getProfileInfo server_error_env None)) SCIMDisabledCallback = 1
      \<and> last (fst (getProfileInfo server_error_env None)) = SCIMDisabledCallback"
    using onSCIMDisabled_once_on_500 [of server_error_env None] a by simp
  moreover have "count_list (fst (getProfileInfo offline_env None)) SCIMDisabledCallback = 0"
    using onSCIMDisabled_once_on_500 [of offline_env None] b by simp
  ultimately show ?thesis using a b by blast
qed

text \<open>The handler compares the status of the payload with the string \<open>"500"\<close>: a payload
  that carries the number 500 does not fire the callback.\<close>

lemma numeric_status_is_no_report:
  "\<not> scim_disabled (Rejection (server_error
      \<lparr>axios_response := Some (example_response 500 (JObj [(''status'', JNum 500)]))\<rparr>))"
  by (simp add: scim_disabled_def example_response_def lookup_JObj)

subsection \<open>The Gravatar fallback\<close>

lemma getProfileInfo_resolves:
  assumes "httpClient env (getProfileInfo_request env) = Inr r"
    and "status r = 200" and "\<not> nullish (data r)"
  shows "snd (getProfileInfo env g) =
     Inr (JObj (
       [(''emails'', js_or (lookup (data r) ''emails'') (JStr [])),
        (''name'', js_or (lookup (data r) ''name'')
           (JObj [(''familyName'', JStr []), (''givenName'', JStr [])])),
        (''organisation'',
           if truthy (lookup (data r) orgKey)
           then lookup (lookup (data r) orgKey) ''organization'' else JStr []),
        (''phoneNumbers'', js_or (lookup (data r) ''phoneNumbers'') (JArr [])),
        (''profileUrl'', js_or (lookup (data r) ''profileUrl'') (JStr [])),
        (''responseStatus'', if status r \<noteq> 0 then JNum (status r) else JNull),
        (''roles'', js_or (lookup (data r) ''roles'') (JArr [])),
        (''userImage'', js_or (lookup (data r) ''userImage'')
           (if truthy (lookup (data r) ''profileUrl'') then lookup (data r) ''profileUrl''
            else JStr (if isEmpty (lookup (data r) ''userImage'')
                          \<and> \<not> truthy (lookup (data r) ''profileUrl'')
                       then (case snd (gravatar_attempt env g r) of Inl t \<Rightarrow> [] | Inr u \<Rightarrow> u)
                       else []))),
        (''userName'', js_or (lookup (data r) ''userName'') (JStr []))]
       @ own_props (data r)))"
proof -
  note handler = snd_getProfileInfo_then_ok [OF assms(2,3), of env g]
  show ?thesis
    unfolding snd_getProfileInfo assms(1) sum.case handler profileResponse_value [OF assms(3)]
      snd_resolve
    by (rule refl)
qed

lemma fst_getProfileInfo_resolved:
  assumes "httpClient env (getProfileInfo_request env) = Inr r"
    and "status r = 200" and "\<not> nullish (data r)"
  shows "fst (getProfileInfo env g) =
     HttpClientRequest (getProfileInfo_request env) #
       (if isEmpty (lookup (data r) ''userImage'') \<and> \<not> truthy (lookup (data r) ''profileUrl'')
        then fst (gravatar_attempt env g r) else [])"
proof -
  have "\<exists>v. snd (getProfileInfo_then env g r) = Inr v"
    using assms by (simp add: snd_getProfileInfo_then_ok profileResponse_value)
  then show ?thesis
    using assms
    by (auto simp: getProfileInfo_def fst_catch_with fst_and_then snd_and_then
        snd_call_httpClient fst_getProfileInfo_then_ok)
qed

text \<open>
  C2 (as amended). On a response with status 200 whose body is not \<open>null\<close> and has
  neither \<open>userImage\<close> nor \<open>profileUrl\<close>, \<open>getProfileInfo\<close> enters the Gravatar attempt
  and resolves whatever comes of it. The attempt issues the Gravatar request when the body
  has a first email (\<open>emails[0]\<close> is neither \<open>undefined\<close> nor \<open>null\<close>), for that email
  if it is a string and for its \<open>value\<close> otherwise; without a first email it fails before
  any request. When the attempt fails, by the missing email or by the failing fetch, the
  \<open>userImage\<close> of the returned profile is the empty string; when it succeeds, it is the
  Gravatar URL.
\<close>

theorem gravatar_failure_gives_empty_image:
  assumes "httpClient env (getProfileInfo_request env) = Inr r"
    and "status r = 200" and "\<not> nullish (data r)"
    and "\<not> has_own (data r) ''userImage''" and "\<not> has_own (data r) ''profileUrl''"
  shows "\<exists>profile. snd (getProfileInfo env g) = Inr profile
     \<and> fst (getProfileInfo env g) =
         HttpClientRequest (getProfileInfo_request env) # fst (gravatar_attempt env g r)
     \<and> (nullish (lookup (lookup (data r) ''emails'') ''0'') \<longrightarrow>
           fst (getProfileInfo env g) = [HttpClientRequest (getProfileInfo_request env)]
           \<and> lookup profile ''userImage'' = JStr [])
     \<and> (\<not> nullish (lookup (lookup (data r) ''emails'') ''0'') \<longrightarrow>
           fst (getProfileInfo env g) =
             [HttpClientRequest (getProfileInfo_request env),
              AxiosRequest (getGravatarImage_request env
                (if is_string (lookup (lookup (data r) ''emails'') ''0'')
                 then lookup (lookup (data r) ''emails'') ''0''
                 else lookup (lookup (lookup (data r) ''emails'') ''0'') ''value'')
                (optional_chain g gravatar_size) (optional_chain g defaultImage)
                (optional_chain g fallback))])
     \<and> (\<forall>e. \<not> nullish (lookup (lookup (data r) ''emails'') ''0'')
           \<and> axios env (getGravatarImage_request env
                (if is_string (lookup (lookup (data r) ''emails'') ''0'')
                 then lookup (lookup (data r) ''emails'') ''0''
                 else lookup (lookup (lookup (data r) ''emails'') ''0'') ''value'')
                (optional_chain g gravatar_size) (optional_chain g defaultImage)
                (optional_chain g fallback)) = Inl e \<longrightarrow>
           lookup profile ''userImage'' = JStr [])
     \<and> (\<forall>t. snd (gravatar_attempt env g r) = Inl t \<longrightarrow> lookup profile ''userImage'' = JStr [])
     \<and> (\<forall>u. snd (gravatar_attempt env g r) = Inr u \<longrightarrow> lookup profile ''userImage'' = JStr u)"
proof -
  have image: "lookup (data r) ''userImage'' = JUndefined"
    and profileUrl: "lookup (data r) ''profileUrl'' = JUndefined"
    using assms(4,5) by (simp_all add: lookup_absent)
  let ?first = "lookup (lookup (data r) ''emails'') ''0''"
  let ?email = "if is_string ?first then ?first else lookup ?first ''value''"
  let ?request = "getGravatarImage_request env ?email (optional_chain g gravatar_size)
      (optional_chain g defaultImage) (optional_chain g fallback)"
  let ?gravatar = "case snd (gravatar_attempt env g r) of Inl t \<Rightarrow> [] | Inr u \<Rightarrow> u"
  let ?members =
    "[(''emails'', js_or (lookup (data r) ''emails'') (JStr [])),
      (''name'', js_or (lookup (data r) ''name'')
         (JObj [(''familyName'', JStr []), (''givenName'', JStr [])])),
      (''organisation'',
         if truthy (lookup (data r) orgKey)
         then lookup (lookup (data r) orgKey) ''organization'' else JStr []),
      (''phoneNumbers'', js_or (lookup (data r) ''phoneNumbers'') (JArr [])),
      (''profileUrl'', js_or JUndefined (JStr [])),
      (''responseStatus'', if status r \<noteq> 0 then JNum (status r) else JNull),
      (''roles'', js_or (lookup (data r) ''roles'') (JArr [])),
      (''userImage'', JStr ?gravatar),
      (''userName'', js_or (lookup (data r) ''userName'') (JStr []))]"
  let ?profile = "JObj (?members @ own_props (data r))"
  have resolved: "snd (getProfileInfo env g) = Inr ?profile"
    using getProfileInfo_resolves [OF assms(1,2,3), of g]
    by (simp add: image profileUrl js_or_def)
  have "map_of (rev ?members) ''userImage'' = Some (JStr ?gravatar)"
    by simp
  then have userImage: "lookup ?profile ''userImage'' = JStr ?gravatar"
    using assms(4) by (rule lookup_literal_spread [rotated])
  have events: "fst (getProfileInfo env g) =
         HttpClientRequest (getProfileInfo_request env) # fst (gravatar_attempt env g r)"
    using fst_getProfileInfo_resolved [OF assms(1,2,3), of g]
    by (simp add: image profileUrl)
  note email = snd_gravatar_email [OF assms(3)]
  have attempt_events: "fst (gravatar_attempt env g r) =
      (if nullish ?first then [] else [AxiosRequest ?request])"
    by (simp add: fst_gravatar_attempt email)
  have attempt_outcome: "snd (gravatar_attempt env g r) =
      (if nullish ?first
       then Inl (TypeError ''TypeError: Cannot read properties of null or undefined'')
       else (case axios env ?request of
               Inl e \<Rightarrow> Inl (uniform_exception GRAVATAR_IMAGE_FETCH_REQUEST_ERROR (Rejection e))
             | Inr x \<Rightarrow> Inr (url ?request)))"
    by (simp add: gravatar_attempt_def snd_and_then email snd_getGravatarImage)
  have failed: "\<forall>t. snd (gravatar_attempt env g r) = Inl t \<longrightarrow>
      lookup ?profile ''userImage'' = JStr []"
    unfolding userImage by simp
  have succeeded: "\<forall>u. snd (gravatar_attempt env g r) = Inr u \<longrightarrow>
      lookup ?profile ''userImage'' = JStr u"
    unfolding userImage by simp
  have no_email: "nullish ?first \<longrightarrow>
      fst (getProfileInfo env g) = [HttpClientRequest (getProfileInfo_request env)]
      \<and> lookup ?profile ''userImage'' = JStr []"
  proof (intro impI conjI)
    assume none: "nullish ?first"
    show "fst (getProfileInfo env g) = [HttpClientRequest (getProfileInfo_request env)]"
      using events attempt_events none by simp
    have "snd (gravatar_attempt env g r) =
        Inl (TypeError ''TypeError: Cannot read properties of null or undefined'')"
      using attempt_outcome none by simp
    then show "lookup ?profile ''userImage'' = JStr []"
      using failed by blast
  qed
  have with_email: "\<not> nullish ?first \<longrightarrow>
      fst (getProfileInfo env g) =
        [HttpClientRequest (getProfileInfo_request env), AxiosRequest ?request]"
    using events attempt_events by simp
  have fetch_failed: "\<forall>e. \<not> nullish ?first \<and> axios env ?request = Inl e \<longrightarrow>
      lookup ?profile ''userImage'' = JStr []"
  proof (intro allI impI, elim conjE)
    fix e assume some: "\<not> nullish ?first" and rejected: "axios env ?request = Inl e"
    have "snd (gravatar_attempt env g r) =
        Inl (uniform_exception GRAVATAR_IMAGE_FETCH_REQUEST_ERROR (Rejection e))"
      using attempt_outcome some rejected by simp
    then show "lookup ?profile ''userImage'' = JStr []"
      using failed by blast
  qed
  show ?thesis
    by (rule exI [of _ ?profile])
      (intro conjI resolved events no_email with_email fetch_failed failed succeeded)
qed

lemma example_response_simps [simp]:
  "status (example_response st body) = st"
  "data (example_response st body) = body"
  by (simp_all add: example_response_def)

lemma alice_body_fields:
  "\<not> nullish alice_body"
  "\<not> has_own alice_body ''userImage''"
  "\<not> has_own alice_body ''profileUrl''"
  "\<not> has_own alice_body ''name''"
  "\<not> has_own alice_body ''organisation''"
  "\<not> has_own alice_body orgKey"
  "\<not> has_own alice_body ''phoneNumbers''"
  "\<not> has_own alice_body ''roles''"
  by (simp_all add: alice_body_def has_own_def orgKey_def)

lemma alice_first_email:
  "lookup (lookup alice_body ''emails'') ''0'' = JStr ''alice@example.com''"
  by (simp add: alice_body_def lookup_JObj lookup_JArr_0)

theorem gravatar_failure_gives_empty_image_witness:
  "httpClient (gravatar_down_env alice_body) (getProfileInfo_request (gravatar_down_env alice_body))
     = Inr (example_response 200 alice_body)
   \<and> \<not> nullish alice_body
   \<and> \<not> has_own alice_body ''userImage'' \<and> \<not> has_own alice_body ''profileUrl''
   \<and> axios (gravatar_down_env alice_body)
        (getGravatarImage_request (gravatar_down_env alice_body)
          (JStr ''alice@example.com'') JUndefined JUndefined JUndefined) = Inl network_error
   \<and> (\<exists>profile. snd (getProfileInfo (gravatar_down_env alice_body) None) = Inr profile
         \<and> lookup profile ''userImage'' = JStr [])
   \<and> fst (getProfileInfo (gravatar_down_env alice_body) None) =
       [HttpClientRequest (getProfileInfo_request (gravatar_down_env alice_body)),
        AxiosRequest (getGravatarImage_request (gravatar_down_env alice_body)
          (JStr ''alice@example.com'') JUndefined JUndefined JUndefined)]"
proof -
  let ?env = "gravatar_down_env alice_body"
  let ?r = "example_response 200 alice_body"
  let ?request = "getGravatarImage_request ?env (JStr ''alice@example.com'') JUndefined
      JUndefined JUndefined"
  have http: "httpClient ?env (getProfileInfo_request ?env) = Inr ?r"
    by (simp add: gravatar_down_env_def example_env_def)
  have ax: "axios ?env ?request = Inl network_error"
    by (simp add: gravatar_down_env_def example_env_def)
  have st: "status ?r = 200" and body: "\<not> nullish (data ?r)"
    and no_image: "\<not> has_own (data ?r) ''userImage''"
    and no_url: "\<not> has_own (data ?r) ''profileUrl''"
    by (simp_all add: alice_body_fields)
  have first: "\<not> nullish (lookup (lookup (data ?r) ''emails'') ''0'')"
    and email: "(if is_string (lookup (lookup (data ?r) ''emails'') ''0'')
         then lookup (lookup (data ?r) ''emails'') ''0''
         else lookup (lookup (lookup (data ?r) ''emails'') ''0'') ''value'') =
       JStr ''alice@example.com''"
    by (simp_all add: alice_first_email)
  have chain: "optional_chain None gravatar_size = JUndefined"
    "optional_chain None defaultImage = JUndefined" "optional_chain None fallback = JUndefined"
    by (simp_all add: optional_chain_def)
  from gravatar_failure_gives_empty_image [OF http st body no_image no_url, of None]
  obtain profile where resolved: "snd (getProfileInfo ?env None) = Inr profile"
    and requested: "\<not> nullish (lookup (lookup (data ?r) ''emails'') ''0'') \<longrightarrow>
        fst (getProfileInfo ?env None) =
          [HttpClientRequest (getProfileInfo_request ?env), AxiosRequest ?request]"
    and failed: "\<forall>e. \<not> nullish (lookup (lookup (data ?r) ''emails'') ''0'')
        \<and> axios ?env ?request = Inl e \<longrightarrow> lookup profile ''userImage'' = JStr []"
    unfolding email chain by blast
  have image: "lookup profile ''userImage'' = JStr []"
    using failed first ax by blast
  have log: "fst (getProfileInfo ?env None) =
      [HttpClientRequest (getProfileInfo_request ?env), AxiosRequest ?request]"
    using requested first by blast
  show ?thesis
    using http alice_body_fields(1,2,3) ax resolved image log by blast
qed

text \<open>
  The claim C2 as stated fails on two responses with status 200. On the body \<open>{}\<close>, which
  has neither \<open>userImage\<close> nor \<open>profileUrl\<close>, no Gravatar request is issued (the server
  would have answered it): reading \<open>emails[0]\<close> throws inside the \<open>try\<close> block before the
  call. On the body \<open>null\<close> the call does not resolve.
\<close>

theorem gravatar_not_requested_counterexample:
  "\<not> has_own (JObj []) ''userImage'' \<and> \<not> has_own (JObj []) ''profileUrl''
   \<and> axios (ok_env (JObj []))
        (getGravatarImage_request (ok_env (JObj [])) JUndefined JUndefined JUndefined JUndefined)
       = Inr (example_response 200 JNull)
   \<and> fst (getProfileInfo (ok_env (JObj [])) None) =
       [HttpClientRequest (getProfileInfo_request (ok_env (JObj [])))]
   \<and> \<not> has_own JNull ''userImage'' \<and> \<not> has_own JNull ''profileUrl''
   \<and> snd (getProfileInfo (ok_env JNull) None) =
       Inl (ApiException
         \<lparr>errorCode = PROFILE_INFO_FETCH_REQUEST_ERROR,
          stackTrace = JStr ''TypeError: Cannot read properties of null or undefined'',
          httpStatusOrCode = JUndefined, exception_request = JUndefined,
          exception_response = None, requestConfig = JUndefined\<rparr>)"
proof -
  have http: "\<And>body. httpClient (ok_env body) (getProfileInfo_request (ok_env body))
      = Inr (example_response 200 body)"
    by (simp add: ok_env_def example_env_def)
  have "lookup (lookup (JObj []) ''emails'') ''0'' = JUndefined"
    by (simp add: lookup_JObj lookup_nullish)
  then have "snd (gravatar_email (example_response 200 (JObj []))) =
      Inl (TypeError ''TypeError: Cannot read properties of null or undefined'')"
    by (simp add: snd_gravatar_email)
  then have "fst (gravatar_attempt (ok_env (JObj [])) None (example_response 200 (JObj []))) = []"
    by (simp add: fst_gravatar_attempt)
  then have log: "fst (getProfileInfo (ok_env (JObj [])) None) =
       [HttpClientRequest (getProfileInfo_request (ok_env (JObj [])))]"
    using fst_getProfileInfo_resolved [OF http [of "JObj []"], of None] by simp
  have rejected: "snd (getProfileInfo (ok_env JNull) None) =
       Inl (ApiException
         \<lparr>errorCode = PROFILE_INFO_FETCH_REQUEST_ERROR,
          stackTrace = JStr ''TypeError: Cannot read properties of null or undefined'',
          httpStatusOrCode = JUndefined, exception_request = JUndefined,
          exception_response = None, requestConfig = JUndefined\<rparr>)"
    by (simp add: snd_getProfileInfo http getProfileInfo_then_null uniform_exception_def)
  have ax: "axios (ok_env (JObj []))
        (getGravatarImage_request (ok_env (JObj [])) JUndefined JUndefined JUndefined JUndefined)
       = Inr (example_response 200 JNull)"
    by (simp add: ok_env_def example_env_def)
  have absent: "\<not> has_own (JObj []) ''userImage''" "\<not> has_own (JObj []) ''profileUrl''"
    "\<not> has_own JNull ''userImage''" "\<not> has_own JNull ''profileUrl''"
    by (simp_all add: has_own_def)
  show ?thesis
    using absent ax log rejected by blast
qed

subsection \<open>Defaults for absent fields\<close>




section \<open>Properties of the email template list page\<close>

lemma slice_loop_take_drop:
  "final \<le> length arr \<Longrightarrow> slice_loop arr k final acc = acc @ take (final - k) (drop k arr)"
proof (induction arr k final acc rule: slice_loop.induct)
  case (1 arr k final acc)
  show ?case
  proof (cases "k < final")
    case True
    with "1.prems" have klen: "k < length arr" by simp
    have step: "take (final - k) (drop k arr) = arr ! k # take (final - (k + 1)) (drop (k + 1) arr)"
    proof -
      have "drop k arr = arr ! k # drop (Suc k) arr"
        using klen by (simp add: Cons_nth_drop_Suc)
      moreover have "final - k = Suc (final - (k + 1))"
        using True by simp
      ultimately show ?thesis by simp
    qed
    have "slice_loop arr k final acc = slice_loop arr (k + 1) final (acc @ [arr ! k])"
      using True klen by (subst slice_loop.simps) simp
    also have "\<dots> = (acc @ [arr ! k]) @ take (final - (k + 1)) (drop (k + 1) arr)"
      using "1.IH" [OF True] "1.prems" klen by simp
    finally show ?thesis using step by simp
  next
    case False
    then show ?thesis by (subst slice_loop.simps) simp
  qed
qed

lemma slice_start_index:
  "nat (if start < 0 then max (int n + start) 0 else min start (int n)) = slice_index n start"
  unfolding slice_index_def by (cases "start < 0") auto

lemma slice_index_le: "slice_index n i \<le> n"
  unfolding slice_index_def by (cases "i < 0") auto

lemma slice_eq_slice_notation: "slice arr start fin = slice_notation arr start fin"
  unfolding slice_def slice_notation_def Let_def slice_start_index
  by (simp add: slice_loop_take_drop slice_index_le)

lemma slice_index_nat: "slice_index n (int i) = min i n"
  by (simp add: slice_index_def)

lemma slice_nat: "slice arr (int off) (int lim + int off) = take lim (drop off arr)"
proof -
  have "slice_index (length arr) (int lim + int off) = min (lim + off) (length arr)"
    using slice_index_nat [of "length arr" "lim + off"] by (simp add: add.commute)
  then show ?thesis
    unfolding slice_eq_slice_notation slice_notation_def slice_index_nat
    by (simp add: min_def)
qed

lemma take_drop_nth:
  "off + lim \<le> length xs \<Longrightarrow> take lim (drop off xs) = map (\<lambda>i. xs ! i) [off..<off + lim]"
  by (rule nth_equalityI) auto

lemma paginated_setEmailTemplateTypePage:
  "paginatedemailTemplates (setEmailTemplateTypePage rendered offsetValue itemLimit next) =
     slice (emailTemplates rendered) offsetValue (itemLimit + offsetValue)"
  by (simp add: setEmailTemplateTypePage_def)

text \<open>
  C4. The page that \<open>setEmailTemplateTypePage\<close> makes visible is the slice
  \<open>templates[offset : offset + limit]\<close> of the template list of the render it runs in, for
  every list and all integers \<open>offset\<close> and \<open>limit\<close>; for an offset and a limit that are
  not negative these are the \<open>limit\<close> elements after the first \<open>offset\<close> ones (fewer at
  the end of the list). Over a list of 25 templates, offset 0 with limit 10 shows the
  templates 0 to 9, and offset 20 with limit 10 shows the templates 20 to 24: the slice stops
  at the end of the list.
\<close>

theorem setEmailTemplateTypePage_slice:
  "paginatedemailTemplates (setEmailTemplateTypePage rendered offsetValue itemLimit next) =
     slice_notation (emailTemplates rendered) offsetValue (offsetValue + itemLimit)
   \<and> paginatedemailTemplates (setEmailTemplateTypePage rendered (int off) (int lim) next) =
       take lim (drop off (emailTemplates rendered))
   \<and> (length (emailTemplates rendered) = 25 \<longrightarrow>
        paginatedemailTemplates (setEmailTemplateTypePage rendered 0 10 next) =
          map (\<lambda>i. emailTemplates rendered ! i) [0..<10]
      \<and> paginatedemailTemplates (setEmailTemplateTypePage rendered 20 10 next) =
          map (\<lambda>i. emailTemplates rendered ! i) [20..<25])"
proof (intro conjI impI)
  show "paginatedemailTemplates (setEmailTemplateTypePage rendered offsetValue itemLimit next) =
          slice_notation (emailTemplates rendered) offsetValue (offsetValue + itemLimit)"
    by (simp add: paginated_setEmailTemplateTypePage slice_eq_slice_notation add.commute)
  show "paginatedemailTemplates (setEmailTemplateTypePage rendered (int off) (int lim) next) =
          take lim (drop off (emailTemplates rendered))"
    by (simp add: paginated_setEmailTemplateTypePage slice_nat)
next
  assume len: "length (emailTemplates rendered) = 25"
  show "paginatedemailTemplates (setEmailTemplateTypePage rendered 0 10 next) =
          map (\<lambda>i. emailTemplates rendered ! i) [0..<10]"
    using slice_nat [of "emailTemplates rendered" 0 10]
      take_drop_nth [of 0 10 "emailTemplates rendered"] len
    by (simp add: paginated_setEmailTemplateTypePage)
  show "paginatedemailTemplates (setEmailTemplateTypePage rendered 20 10 next) =
          map (\<lambda>i. emailTemplates rendered ! i) [20..<25]"
    using slice_nat [of "emailTemplates rendered" 20 10]
      take_drop_nth [of 20 5 "emailTemplates rendered"] len
    by (simp add: paginated_setEmailTemplateTypePage)
qed

theorem setEmailTemplateTypePage_slice_witness:
  "length (emailTemplates example_page) = 25
   \<and> paginatedemailTemplates (setEmailTemplateTypePage example_page 0 10 example_page) =
       [0, 1, 2, 3, 4, 5, 6, 7, 8, 9]
   \<and> paginatedemailTemplates (setEmailTemplateTypePage example_page 20 10 example_page) =
       [20, 21, 22, 23, 24]"
proof -
  have ts: "emailTemplates example_page = [0..<25]"
    by (simp add: example_page_def render_def initial_def Let_def del: upt.simps upt_rec_numeral)
  have len: "length (emailTemplates example_page) = 25"
    by (simp add: ts)
  have first_page: "map (\<lambda>i. emailTemplates example_page ! i) [0..<10] =
      [0, 1, 2, 3, 4, 5, 6, 7, 8, 9]"
    unfolding ts by code_simp
  have last_page: "map (\<lambda>i. emailTemplates example_page ! i) [20..<25] =
      [20, 21, 22, 23, 24]"
    unfolding ts by code_simp
  have pages:
    "paginatedemailTemplates (setEmailTemplateTypePage example_page 0 10 example_page) =
       map (\<lambda>i. emailTemplates example_page ! i) [0..<10]
     \<and> paginatedemailTemplates (setEmailTemplateTypePage example_page 20 10 example_page) =
       map (\<lambda>i. emailTemplates example_page ! i) [20..<25]"
    using setEmailTemplateTypePage_slice [of example_page 0 10 example_page 0 0] len
    by blast
  show ?thesis
    using pages len unfolding first_page last_page by blast
qed

lemma fetch_deps_handleItemsPerPageDropdownChange:
  "fetch_deps (handleItemsPerPageDropdownChange st v) = fetch_deps st"
  by (simp add: fetch_deps_def handleItemsPerPageDropdownChange_def setEmailTemplateTypePage_def)

lemma fetch_deps_handlePaginationChange:
  "fetch_deps (handlePaginationChange st p) = fetch_deps st"
  by (simp add: fetch_deps_def handlePaginationChange_def setEmailTemplateTypePage_def Let_def)

lemma split_not_empty: "split c s \<noteq> []"
  by (induction s) (auto split: list.splits)

text \<open>After a render the fetching effect has run for the current dependencies.\<close>

lemma rendered_page_is_settled:
  "fetch_effect_deps (render st) = Some (fetch_deps (render st))"
  by (simp add: render_def fetch_deps_def Let_def)

lemma render_settled:
  "fetch_effect_deps st = Some (fetch_deps st) \<Longrightarrow> render st = st"
  by (simp add: render_def)

lemma render_handleItemsPerPageDropdownChange:
  assumes "fetch_effect_deps st = Some (fetch_deps st)"
  shows "render (handleItemsPerPageDropdownChange st v) = handleItemsPerPageDropdownChange st v"
proof (rule render_settled)
  have "fetch_effect_deps (handleItemsPerPageDropdownChange st v) = fetch_effect_deps st"
    by (simp add: handleItemsPerPageDropdownChange_def setEmailTemplateTypePage_def)
  then show "fetch_effect_deps (handleItemsPerPageDropdownChange st v) =
      Some (fetch_deps (handleItemsPerPageDropdownChange st v))"
    using assms by (simp add: fetch_deps_handleItemsPerPageDropdownChange)
qed

lemma render_handlePaginationChange:
  assumes "fetch_effect_deps st = Some (fetch_deps st)"
  shows "render (handlePaginationChange st p) = handlePaginationChange st p"
proof (rule render_settled)
  have "fetch_effect_deps (handlePaginationChange st p) = fetch_effect_deps st"
    by (simp add: handlePaginationChange_def setEmailTemplateTypePage_def Let_def)
  then show "fetch_effect_deps (handlePaginationChange st p) =
      Some (fetch_deps (handlePaginationChange st p))"
    using assms by (simp add: fetch_deps_handlePaginationChange)
qed

text \<open>
  C5. On a page whose fetching effect has run for the current template list (every rendered
  page is one), a change of the page size (\<open>handleItemsPerPageDropdownChange\<close>) or of
  the page (\<open>handlePaginationChange\<close>), followed by the render it causes, issues no call
  of \<open>getEmailTemplate\<close>, leaves the fetched template list as it is, and makes visible the
  slice of that list at the new offset and page size.
\<close>

theorem page_change_without_refetch:
  assumes "fetch_effect_deps st = Some (fetch_deps st)"
  shows
    "getEmailTemplate_calls (render (handleItemsPerPageDropdownChange st v)) =
       getEmailTemplate_calls st
     \<and> emailTemplates (render (handleItemsPerPageDropdownChange st v)) = emailTemplates st
     \<and> listItemLimit (render (handleItemsPerPageDropdownChange st v)) = v
     \<and> paginatedemailTemplates (render (handleItemsPerPageDropdownChange st v)) =
         slice_notation (emailTemplates st) (listOffset st) (listOffset st + v)
     \<and> getEmailTemplate_calls (render (handlePaginationChange st p)) =
         getEmailTemplate_calls st
     \<and> emailTemplates (render (handlePaginationChange st p)) = emailTemplates st
     \<and> listOffset (render (handlePaginationChange st p)) = (p - 1) * listItemLimit st
     \<and> paginatedemailTemplates (render (handlePaginationChange st p)) =
         slice_notation (emailTemplates st) ((p - 1) * listItemLimit st)
           ((p - 1) * listItemLimit st + listItemLimit st)"
  unfolding render_handleItemsPerPageDropdownChange [OF assms]
    render_handlePaginationChange [OF assms]
  by (simp add: handleItemsPerPageDropdownChange_def handlePaginationChange_def
      setEmailTemplateTypePage_def Let_def slice_eq_slice_notation add.commute)

theorem page_change_without_refetch_witness:
  "fetch_effect_deps example_page = Some (fetch_deps example_page)
   \<and> getEmailTemplate_calls (render (handleItemsPerPageDropdownChange example_page 5)) = [''abc'']
   \<and> getEmailTemplate_calls (render (handlePaginationChange example_page 3)) = [''abc'']
   \<and> emailTemplates (render (handleItemsPerPageDropdownChange example_page 5)) = [0..<25]
   \<and> emailTemplates (render (handlePaginationChange example_page 3)) = [0..<25]"
proof -
  have settled: "fetch_effect_deps example_page = Some (fetch_deps example_page)"
    by (simp add: example_page_def render_def initial_def fetch_deps_def Let_def)
  have calls: "getEmailTemplate_calls example_page = [''abc'']"
    by (simp add: example_page_def render_def initial_def fetch_deps_def Let_def)
  have ts: "emailTemplates example_page = [0..<25]"
    by (simp add: example_page_def render_def initial_def Let_def del: upt.simps upt_rec_numeral)
  have unchanged:
    "getEmailTemplate_calls (render (handleItemsPerPageDropdownChange example_page 5)) =
       getEmailTemplate_calls example_page
     \<and> getEmailTemplate_calls (render (handlePaginationChange example_page 3)) =
       getEmailTemplate_calls example_page
     \<and> emailTemplates (render (handleItemsPerPageDropdownChange example_page 5)) =
       emailTemplates example_page
     \<and> emailTemplates (render (handlePaginationChange example_page 3)) =
       emailTemplates example_page"
    using page_change_without_refetch [OF settled, of 5 3] by blast
  show ?thesis
    using unchanged settled unfolding calls ts by blast
qed

section \<open>Properties of the application feature configuration\<close>

text \<open>
  C10. The override hooks of \<open>editApplication\<close> override nothing: \<open>getOveriddenTab\<close> returns
  its \<open>defaultComponent\<close> argument whatever the other arguments are, and \<open>getActions\<close>,
  \<open>getOverriddenDescription\<close> and \<open>getOverriddenImage\<close> return \<open>null\<close> for every input.
\<close>

theorem editApplication_hooks_override_nothing:
  "getOveriddenTab editApplication clientId tabName defaultComponent appName appId tenant =
     defaultComponent
   \<and> getActions editApplication clientId' tenant' testId = None
   \<and> getOverriddenDescription editApplication clientId'' templateName tenant'' = None
   \<and> getOverriddenImage editApplication clientId''' tenant''' = None"
  by (simp add: editApplication_def)

end
